theory Spec2Isabelle
  imports Main "HOL-Library.Word"
begin

section \<open>JavaScript values\<close>

text \<open>
  The handlers of the relay bot work on values that come out of \<^verbatim>\<open>JSON.parse\<close>,
  out of a regular-expression match and out of the configuration object. They are
  untyped in the source, so the model keeps them untyped: one datatype of JavaScript
  values, and one function per language operation the source applies to them.

  A string is a sequence of UTF-16 code units, as \<^verbatim>\<open>length\<close>, \<^verbatim>\<open>===\<close> and
  the regular expressions of the source see it. \<open>ascii\<close> embeds an ASCII literal.
  A number is an integer or NaN: the identifiers of the platform are integers, and
  the model is exact where a double is (magnitudes up to \<open>2 ^ 53\<close>); fractions are
  outside the model.
\<close>

type_synonym code_unit = "16 word"
type_synonym jsstring = "code_unit list"

definition ascii :: "string \<Rightarrow> jsstring" where
  "ascii s = map of_char s"

datatype jsnum = NaN | Fin int

datatype jsval =
    JUndefined
  | JNull
  | JBool bool
  | JNum jsnum
  | JStr jsstring
  | JArr "jsval list"
  | JObj "(jsstring \<times> jsval) list"

text \<open>What a throw carries. The handlers never look inside an error, except for
  \<^verbatim>\<open>error.message\<close>, which the model keeps symbolic.\<close>

datatype js_error = TypeError | SyntaxError | NetworkError

text \<open>Sequencing of steps that may throw.\<close>

definition bindE :: "js_error + 'a \<Rightarrow> ('a \<Rightarrow> js_error + 'b) \<Rightarrow> js_error + 'b" where
  "bindE m f = (case m of Inl e \<Rightarrow> Inl e | Inr x \<Rightarrow> f x)"

text \<open>ToBoolean.\<close>

fun truthy :: "jsval \<Rightarrow> bool" where
  "truthy JUndefined = False"
| "truthy JNull = False"
| "truthy (JBool b) = b"
| "truthy (JNum NaN) = False"
| "truthy (JNum (Fin i)) = (i \<noteq> 0)"
| "truthy (JStr s) = (s \<noteq> [])"
| "truthy (JArr xs) = True"
| "truthy (JObj kvs) = True"

text \<open>
  \<^verbatim>\<open>v.k\<close> for the property names the source reads. None of them is defined on a
  built-in prototype except \<^verbatim>\<open>length\<close>, so a read finds an own property or
  nothing. Reading a property of \<^verbatim>\<open>undefined\<close> or \<^verbatim>\<open>null\<close> throws.
\<close>

fun get :: "jsval \<Rightarrow> jsstring \<Rightarrow> js_error + jsval" where
  "get JUndefined k = Inl TypeError"
| "get JNull k = Inl TypeError"
| "get (JBool b) k = Inr JUndefined"
| "get (JNum n) k = Inr JUndefined"
| "get (JStr s) k =
     Inr (if k = ascii ''length'' then JNum (Fin (int (length s))) else JUndefined)"
| "get (JArr xs) k =
     Inr (if k = ascii ''length'' then JNum (Fin (int (length xs))) else JUndefined)"
| "get (JObj kvs) k = Inr (case map_of kvs k of Some v \<Rightarrow> v | None \<Rightarrow> JUndefined)"

text \<open>\<^verbatim>\<open>v.k1.k2\<close> and longer chains, left to right.\<close>

fun get_path :: "jsval \<Rightarrow> jsstring list \<Rightarrow> js_error + jsval" where
  "get_path v [] = Inr v"
| "get_path v (k # ks) = bindE (get v k) (\<lambda>w. get_path w ks)"

text \<open>Number.prototype.toString on the numbers of the model.\<close>

fun dec_digits :: "nat \<Rightarrow> jsstring" where
  "dec_digits n =
     (if n < 10 then [of_nat (48 + n)]
      else dec_digits (n div 10) @ [of_nat (48 + n mod 10)])"

declare dec_digits.simps [simp del]

definition Number_toString :: "jsnum \<Rightarrow> jsstring" where
  "Number_toString n =
     (case n of
        NaN \<Rightarrow> ascii ''NaN''
      | Fin i \<Rightarrow> if i < 0 then ascii ''-'' @ dec_digits (nat (- i)) else dec_digits (nat i))"

text \<open>\<^verbatim>\<open>v[i]\<close> for an index \<open>i\<close>.\<close>

fun index :: "jsval \<Rightarrow> nat \<Rightarrow> js_error + jsval" where
  "index JUndefined i = Inl TypeError"
| "index JNull i = Inl TypeError"
| "index (JBool b) i = Inr JUndefined"
| "index (JNum n) i = Inr JUndefined"
| "index (JStr s) i = Inr (if i < length s then JStr [s ! i] else JUndefined)"
| "index (JArr xs) i = Inr (if i < length xs then xs ! i else JUndefined)"
| "index (JObj kvs) i =
     Inr (case map_of kvs (dec_digits i) of Some v \<Rightarrow> v | None \<Rightarrow> JUndefined)"

text \<open>Array.prototype.join on element strings already computed: the first element
  that throws decides.\<close>

fun join :: "jsstring \<Rightarrow> (js_error + jsstring) list \<Rightarrow> js_error + jsstring" where
  "join sep [] = Inr []"
| "join sep [r] = r"
| "join sep (r # rs) =
     bindE r (\<lambda>s. bindE (join sep rs) (\<lambda>t. Inr (s @ sep @ t)))"

text \<open>
  The abstract operation ToString. An array is joined with commas, with
  \<^verbatim>\<open>undefined\<close> and \<^verbatim>\<open>null\<close> elements as empty strings. A parsed object has
  no callable property of its own, so an own \<^verbatim>\<open>toString\<close> makes the conversion
  throw and otherwise Object.prototype.toString answers.
\<close>

fun ToString :: "jsval \<Rightarrow> js_error + jsstring" where
  "ToString JUndefined = Inr (ascii ''undefined'')"
| "ToString JNull = Inr (ascii ''null'')"
| "ToString (JBool b) = Inr (if b then ascii ''true'' else ascii ''false'')"
| "ToString (JNum n) = Inr (Number_toString n)"
| "ToString (JStr s) = Inr s"
| "ToString (JArr xs) =
     join (ascii '','')
       (map (\<lambda>x. if x = JUndefined \<or> x = JNull then Inr [] else ToString x) xs)"
| "ToString (JObj kvs) =
     (if map_of kvs (ascii ''toString'') \<noteq> None then Inl TypeError
      else Inr (ascii ''[object Object]''))"

text \<open>The method call \<^verbatim>\<open>v.toString()\<close>.\<close>

definition toString :: "jsval \<Rightarrow> js_error + jsstring" where
  "toString v = (if v = JUndefined \<or> v = JNull then Inl TypeError else ToString v)"

text \<open>
  \<^verbatim>\<open>parseInt(v)\<close> with no radix: ToString, leading white space, a sign, an
  optional \<^verbatim>\<open>0x\<close>, then the longest run of digits.
\<close>

definition is_white_space :: "code_unit \<Rightarrow> bool" where
  "is_white_space c \<longleftrightarrow>
     c \<in> set [0x9, 0xA, 0xB, 0xC, 0xD, 0x20, 0xA0, 0x1680, 0x2028, 0x2029, 0x202F,
              0x205F, 0x3000, 0xFEFF]
     \<or> (0x2000 \<le> c \<and> c \<le> 0x200A)"

definition is_digit :: "nat \<Rightarrow> code_unit \<Rightarrow> bool" where
  "is_digit R c \<longleftrightarrow>
     (0x30 \<le> c \<and> c \<le> 0x39)
     \<or> (R = 16 \<and> ((0x61 \<le> c \<and> c \<le> 0x66) \<or> (0x41 \<le> c \<and> c \<le> 0x46)))"

definition digit_value :: "code_unit \<Rightarrow> nat" where
  "digit_value c =
     (if c \<le> 0x39 then unat c - 0x30
      else if c \<le> 0x46 then unat c - 0x41 + 10
      else unat c - 0x61 + 10)"

definition parseInt :: "jsval \<Rightarrow> js_error + jsnum" where
  "parseInt v =
     bindE (ToString v) (\<lambda>inputString.
       let S = dropWhile is_white_space inputString;
           negative = (case S of c # _ \<Rightarrow> c = 0x2D | [] \<Rightarrow> False);
           S1 = (case S of c # cs \<Rightarrow> if c = 0x2B \<or> c = 0x2D then cs else S | [] \<Rightarrow> S);
           hex = (case S1 of a # b # _ \<Rightarrow> a = 0x30 \<and> (b = 0x78 \<or> b = 0x58) | _ \<Rightarrow> False);
           R = (if hex then 16 else 10);
           S2 = (if hex then drop 2 S1 else S1);
           Z = takeWhile (is_digit R) S2;
           mathInt = foldl (\<lambda>a c. a * R + digit_value c) 0 Z
       in Inr (if Z = [] then NaN
               else Fin (if negative then - int mathInt else int mathInt)))"

text \<open>
  \<^verbatim>\<open>s.split(sep)\<close> for a string \<open>s\<close> and a non-empty separator: \<open>cur\<close> collects,
  reversed, the code units of the piece being read.
\<close>

fun split_from :: "jsstring \<Rightarrow> jsstring \<Rightarrow> jsstring \<Rightarrow> nat \<Rightarrow> jsstring list" where
  "split_from sep cur [] skip = [rev cur]"
| "split_from sep cur (c # cs) (Suc skip) = split_from sep cur cs skip"
| "split_from sep cur (c # cs) 0 =
     (if sep \<noteq> [] \<and> take (length sep) (c # cs) = sep
      then rev cur # split_from sep [] cs (length sep - 1)
      else split_from sep (c # cur) cs 0)"

definition split :: "jsstring \<Rightarrow> jsstring \<Rightarrow> jsstring list" where
  "split s sep = split_from sep [] s 0"

text \<open>
  \<^verbatim>\<open>v.split(sep)[1]\<close>: only a string has a \<^verbatim>\<open>split\<close> to call; the second
  piece, or \<^verbatim>\<open>undefined\<close> when the separator does not occur.
\<close>

definition split_second :: "jsval \<Rightarrow> jsstring \<Rightarrow> js_error + jsval" where
  "split_second v sep =
     (case v of
        JStr s \<Rightarrow> index (JArr (map JStr (split s sep))) 1
      | _ \<Rightarrow> Inl TypeError)"

text \<open>
  \<^verbatim>\<open>JSON.stringify\<close>, as the JSON value its text denotes: a member whose value is
  \<^verbatim>\<open>undefined\<close> is left out, NaN is written \<^verbatim>\<open>null\<close>.
\<close>

fun JSON_stringify :: "jsval \<Rightarrow> jsval" where
  "JSON_stringify (JNum NaN) = JNull"
| "JSON_stringify (JArr xs) =
     JArr (map (\<lambda>x. if x = JUndefined then JNull else JSON_stringify x) xs)"
| "JSON_stringify (JObj kvs) =
     JObj (map (\<lambda>(k, v). (k, JSON_stringify v)) (filter (\<lambda>(k, v). v \<noteq> JUndefined) kvs))"
| "JSON_stringify v = v"

section \<open>The host: requests, the remote API, regular expressions\<close>

text \<open>
  A request as the handlers read it: \<^verbatim>\<open>new URL(request.url)\<close> with the
  components of the URL,
  \<^verbatim>\<open>request.headers.get('X-Telegram-Bot-Api-Secret-Token')\<close> (\<open>None\<close> is
  \<^verbatim>\<open>null\<close>, the header is absent) and \<^verbatim>\<open>await request.json()\<close> (\<open>None\<close>: the
  body is not JSON and the promise rejects).
\<close>

record URL =
  protocol :: jsstring
  hostname :: jsstring
  port :: jsstring
  pathname :: jsstring
  search :: jsstring

record request =
  url :: URL
  secret_token_header :: "jsstring option"
  json :: "jsval option"

text \<open>One POST to the remote API, and the Response \<^verbatim>\<open>fetch\<close> resolves to: its
  \<^verbatim>\<open>ok\<close> property and what \<^verbatim>\<open>response.json()\<close> gives (\<open>None\<close>: it rejects).\<close>

record api_call =
  endpoint :: jsstring
  body :: jsval

datatype remote_response = RemoteResponse (ok: bool) (parsed: "jsval option")

text \<open>
  What the model does not compute is a parameter:
  \<^item> \<open>new_RegExp src\<close> is \<^verbatim>\<open>new RegExp(src)\<close>: \<open>None\<close> when the constructor throws,
    else the function \<^verbatim>\<open>s.match(re)\<close> (\<^verbatim>\<open>null\<close> or the array of the match and
    its groups);
  \<^item> \<open>StringToNumber_gt s n\<close> says whether the number a string converts to is
    greater than \<open>n\<close>;
  \<^item> \<open>fetch trace call\<close> is the outcome of a call issued after the calls of \<open>trace\<close>:
    \<open>None\<close> when the promise rejects.
\<close>

record runtime =
  new_RegExp :: "jsstring \<Rightarrow> (jsstring \<Rightarrow> jsval) option"
  StringToNumber_gt :: "jsstring \<Rightarrow> int \<Rightarrow> bool"
  fetch :: "api_call list \<Rightarrow> api_call \<Rightarrow> remote_response option"

text \<open>\<^verbatim>\<open>v > n\<close> for a number literal \<open>n\<close>: ToPrimitive, then ToNumber.\<close>

fun greater_than :: "runtime \<Rightarrow> jsval \<Rightarrow> int \<Rightarrow> js_error + bool" where
  "greater_than rt JUndefined n = Inr False"
| "greater_than rt JNull n = Inr (0 > n)"
| "greater_than rt (JBool b) n = Inr ((if b then 1 else 0) > n)"
| "greater_than rt (JNum NaN) n = Inr False"
| "greater_than rt (JNum (Fin i)) n = Inr (i > n)"
| "greater_than rt (JStr s) n = Inr (StringToNumber_gt rt s n)"
| "greater_than rt v n = bindE (ToString v) (\<lambda>s. Inr (StringToNumber_gt rt s n))"

text \<open>\<^verbatim>\<open>/[lo-hi]/.test(v)\<close>: ToString, then some code unit in the range.\<close>

definition class_test :: "code_unit \<Rightarrow> code_unit \<Rightarrow> jsval \<Rightarrow> js_error + bool" where
  "class_test lo hi v = bindE (ToString v) (\<lambda>s. Inr (\<exists>c \<in> set s. lo \<le> c \<and> c \<le> hi))"

text \<open>A handler's outcome: the remote calls it issued, in order, and the Response
  it returns or the error it throws.\<close>

datatype message_text = Text jsstring | TextOfError jsstring js_error

datatype content = Plain jsstring | Json bool message_text

record response =
  status :: nat
  content :: content

type_synonym outcome = "api_call list \<times> (js_error + response)"

definition Response :: "jsstring \<Rightarrow> nat \<Rightarrow> response" where
  "Response text st = \<lparr>status = st, content = Plain text\<rparr>"

section \<open>The core module\<close>

subsection \<open>validateSecretToken, jsonResponse, postToTelegramApi\<close>

text \<open>\<^verbatim>\<open>token.length > 15 && /[A-Z]/.test(token) && /[a-z]/.test(token) &&
  /[0-9]/.test(token)\<close>, left to right.\<close>

definition validateSecretToken :: "runtime \<Rightarrow> jsval \<Rightarrow> js_error + bool" where
  "validateSecretToken rt token =
     bindE (get token (ascii ''length'')) (\<lambda>len.
     bindE (greater_than rt len 15) (\<lambda>long.
       if \<not> long then Inr False
       else bindE (class_test 0x41 0x5A token) (\<lambda>upper.
         if \<not> upper then Inr False
         else bindE (class_test 0x61 0x7A token) (\<lambda>lower.
           if \<not> lower then Inr False
           else class_test 0x30 0x39 token))))"

text \<open>\<^verbatim>\<open>jsonResponse({success, message}, status)\<close>.\<close>

definition jsonResponse :: "bool \<Rightarrow> message_text \<Rightarrow> nat \<Rightarrow> response" where
  "jsonResponse success msg st = \<lparr>status = st, content = Json success msg\<rparr>"

text \<open>
  \<^verbatim>\<open>postToTelegramApi(token, method, body)\<close>: the URL template converts the token,
  the body is serialised, then the call is issued. The result is the calls so far
  and the Response, or the error when the conversion throws or \<^verbatim>\<open>fetch\<close> rejects.
\<close>

definition postToTelegramApi ::
  "runtime \<Rightarrow> api_call list \<Rightarrow> jsval \<Rightarrow> jsstring \<Rightarrow> jsval
     \<Rightarrow> api_call list \<times> (js_error + remote_response)" where
  "postToTelegramApi rt trace token method data =
     (case ToString token of
        Inl e \<Rightarrow> (trace, Inl e)
      | Inr t \<Rightarrow>
          let call = \<lparr>endpoint = ascii ''https://api.telegram.org/bot'' @ t @ ascii ''/'' @ method,
                      body = JSON_stringify data\<rparr>
          in (trace @ [call],
              case fetch rt trace call of None \<Rightarrow> Inl NetworkError | Some r \<Rightarrow> Inr r))"

text \<open>The string literals of the source that are not ASCII, as UTF-16 code units:
  the body of the 401, 200, 500 and 404 responses, the messages of install and
  uninstall, and the two labels of the relay marker (U+1F50F, lock with ink pen, and
  U+1F513, open lock, each followed by the same two words).\<close>

definition lit_unauthorized :: jsstring where
  "lit_unauthorized = [0x672A, 0x6388, 0x6743]"

definition lit_success :: jsstring where
  "lit_success = [0x6210, 0x529F]"

definition lit_internal_error :: jsstring where
  "lit_internal_error = [0x5185, 0x90E8, 0x670D, 0x52A1, 0x5668, 0x9519, 0x8BEF]"

definition lit_not_found :: jsstring where
  "lit_not_found = [0x672A, 0x627E, 0x5230]"

definition lit_invalid_secret :: jsstring where
  "lit_invalid_secret =
     [0x5BC6, 0x94A5, 0x4EE4, 0x724C, 0x5FC5, 0x987B, 0x81F3, 0x5C11, 0x5305, 0x542B,
      0x0031, 0x0036, 0x4E2A, 0x5B57, 0x7B26, 0xFF0C, 0x4E14, 0x5305, 0x542B, 0x5927,
      0x5199, 0x5B57, 0x6BCD, 0x3001, 0x5C0F, 0x5199, 0x5B57, 0x6BCD, 0x548C, 0x6570,
      0x5B57, 0x3002]"

definition lit_install_ok :: jsstring where
  "lit_install_ok = ascii ''Webhook '' @ [0x5B89, 0x88C5, 0x6210, 0x529F, 0x3002]"

definition lit_install_failed :: jsstring where
  "lit_install_failed = ascii ''Webhook '' @ [0x5B89, 0x88C5, 0x5931, 0x8D25, 0xFF1A]"

definition lit_install_error :: jsstring where
  "lit_install_error = [0x5B89, 0x88C5] @ ascii '' webhook '' @ [0x65F6, 0x51FA, 0x9519, 0xFF1A]"

definition lit_uninstall_ok :: jsstring where
  "lit_uninstall_ok = ascii ''Webhook '' @ [0x5378, 0x8F7D, 0x6210, 0x529F, 0x3002]"

definition lit_uninstall_failed :: jsstring where
  "lit_uninstall_failed = ascii ''Webhook '' @ [0x5378, 0x8F7D, 0x5931, 0x8D25, 0xFF1A]"

definition lit_uninstall_error :: jsstring where
  "lit_uninstall_error = [0x5378, 0x8F7D] @ ascii '' webhook '' @ [0x65F6, 0x51FA, 0x9519, 0xFF1A]"

definition lit_locked :: jsstring where
  "lit_locked = [0xD83D, 0xDD0F] @ ascii '' '' @ [0x6765, 0x81EA] @ ascii '': ''"

definition lit_unlocked :: jsstring where
  "lit_unlocked = [0xD83D, 0xDD13] @ ascii '' '' @ [0x6765, 0x81EA] @ ascii '': ''"

subsection \<open>handleInstall and handleUninstall\<close>

text \<open>
  In both handlers the validation and, for install, the template of the webhook URL
  come before the \<^verbatim>\<open>try\<close>: what they throw leaves the handler. Inside the
  \<^verbatim>\<open>try\<close> are the remote call, \<^verbatim>\<open>response.json()\<close>, \<^verbatim>\<open>result.ok\<close> and the
  template with \<^verbatim>\<open>result.description\<close>; the \<^verbatim>\<open>catch\<close> answers 500.
\<close>

definition handleInstall ::
  "runtime \<Rightarrow> request \<Rightarrow> jsval \<Rightarrow> jsval \<Rightarrow> jsval \<Rightarrow> jsval \<Rightarrow> outcome" where
  "handleInstall rt request ownerUid botToken prefix secretToken =
     (case validateSecretToken rt secretToken of
        Inl e \<Rightarrow> ([], Inl e)
      | Inr False \<Rightarrow> ([], Inr (jsonResponse False (Text lit_invalid_secret) 400))
      | Inr True \<Rightarrow>
          let baseUrl = protocol (url request) @ ascii ''//'' @ hostname (url request) in
          (case bindE (ToString prefix) (\<lambda>p.
                bindE (ToString ownerUid) (\<lambda>uid.
                bindE (ToString botToken) (\<lambda>tok.
                  Inr (baseUrl @ ascii ''/'' @ p @ ascii ''/webhook/'' @ uid @ ascii ''/'' @ tok)))) of
             Inl e \<Rightarrow> ([], Inl e)
           | Inr webhookUrl \<Rightarrow>
               (case postToTelegramApi rt [] botToken (ascii ''setWebhook'')
                       (JObj [(ascii ''url'', JStr webhookUrl),
                              (ascii ''allowed_updates'', JArr [JStr (ascii ''message'')]),
                              (ascii ''secret_token'', secretToken)]) of
                  (trace, Inl error) \<Rightarrow>
                    (trace, Inr (jsonResponse False (TextOfError lit_install_error error) 500))
                | (trace, Inr response) \<Rightarrow>
                    (trace,
                     case (case parsed response of
                             None \<Rightarrow> Inl SyntaxError
                           | Some result \<Rightarrow>
                               bindE (get result (ascii ''ok'')) (\<lambda>result_ok.
                                 if truthy result_ok
                                 then Inr (jsonResponse True (Text lit_install_ok) 200)
                                 else bindE (get result (ascii ''description'')) (\<lambda>description.
                                      bindE (ToString description) (\<lambda>d.
                                        Inr (jsonResponse False
                                               (Text (lit_install_failed @ d)) 400))))) of
                       Inl error \<Rightarrow>
                         Inr (jsonResponse False (TextOfError lit_install_error error) 500)
                     | Inr r \<Rightarrow> Inr r))))"

definition handleUninstall :: "runtime \<Rightarrow> jsval \<Rightarrow> jsval \<Rightarrow> outcome" where
  "handleUninstall rt botToken secretToken =
     (case validateSecretToken rt secretToken of
        Inl e \<Rightarrow> ([], Inl e)
      | Inr False \<Rightarrow> ([], Inr (jsonResponse False (Text lit_invalid_secret) 400))
      | Inr True \<Rightarrow>
          (case postToTelegramApi rt [] botToken (ascii ''deleteWebhook'') (JObj []) of
             (trace, Inl error) \<Rightarrow>
               (trace, Inr (jsonResponse False (TextOfError lit_uninstall_error error) 500))
           | (trace, Inr response) \<Rightarrow>
               (trace,
                case (case parsed response of
                        None \<Rightarrow> Inl SyntaxError
                      | Some result \<Rightarrow>
                          bindE (get result (ascii ''ok'')) (\<lambda>result_ok.
                            if truthy result_ok
                            then Inr (jsonResponse True (Text lit_uninstall_ok) 200)
                            else bindE (get result (ascii ''description'')) (\<lambda>description.
                                 bindE (ToString description) (\<lambda>d.
                                   Inr (jsonResponse False
                                          (Text (lit_uninstall_failed @ d)) 400))))) of
                  Inl error \<Rightarrow>
                    Inr (jsonResponse False (TextOfError lit_uninstall_error error) 500)
                | Inr r \<Rightarrow> Inr r)))"

subsection \<open>handleWebhook\<close>

text \<open>The condition of the reply branch:
  \<^verbatim>\<open>reply && message.chat.id.toString() === ownerUid\<close>.\<close>

definition is_owner_reply :: "jsval \<Rightarrow> jsval \<Rightarrow> jsval \<Rightarrow> js_error + bool" where
  "is_owner_reply reply message ownerUid =
     (if \<not> truthy reply then Inr False
      else bindE (get_path message [ascii ''chat'', ascii ''id'']) (\<lambda>chat_id.
           bindE (toString chat_id) (\<lambda>s. Inr (JStr s = ownerUid))))"

text \<open>\<^verbatim>\<open>rm && rm.inline_keyboard && rm.inline_keyboard.length > 0\<close>.\<close>

definition has_inline_keyboard :: "runtime \<Rightarrow> jsval \<Rightarrow> js_error + bool" where
  "has_inline_keyboard rt rm =
     (if \<not> truthy rm then Inr False
      else bindE (get rm (ascii ''inline_keyboard'')) (\<lambda>inline_keyboard.
        if \<not> truthy inline_keyboard then Inr False
        else bindE (get inline_keyboard (ascii ''length'')) (\<lambda>n. greater_than rt n 0)))"

text \<open>The sender's id out of the marker: \<^verbatim>\<open>callback_data\<close> of the first element of
  the first row and, when that is falsy, the second piece of its \<^verbatim>\<open>url\<close> split at
  \<^verbatim>\<open>tg://user?id=\<close>.\<close>

definition marker_senderUid :: "jsval \<Rightarrow> js_error + jsval" where
  "marker_senderUid rm =
     bindE (get rm (ascii ''inline_keyboard'')) (\<lambda>inline_keyboard.
     bindE (index inline_keyboard 0) (\<lambda>row.
     bindE (index row 0) (\<lambda>button.
     bindE (get button (ascii ''callback_data'')) (\<lambda>senderUid.
       if \<not> truthy senderUid
       then bindE (get button (ascii ''url'')) (\<lambda>link. split_second link (ascii ''tg://user?id=''))
       else Inr senderUid))))"

text \<open>The reply branch: the body of \<^verbatim>\<open>if (reply && ...)\<close>.\<close>

definition reply_branch :: "runtime \<Rightarrow> jsval \<Rightarrow> jsval \<Rightarrow> jsval \<Rightarrow> outcome" where
  "reply_branch rt botToken message reply =
     (case bindE (get reply (ascii ''reply_markup'')) (\<lambda>rm.
           bindE (has_inline_keyboard rt rm) (\<lambda>present.
             if \<not> present then Inr None
             else bindE (marker_senderUid rm) (\<lambda>senderUid.
                  bindE (parseInt senderUid) (\<lambda>chat_id.
                  bindE (get_path message [ascii ''chat'', ascii ''id'']) (\<lambda>from_chat_id.
                  bindE (get message (ascii ''message_id'')) (\<lambda>message_id.
                    Inr (Some (JObj [(ascii ''chat_id'', JNum chat_id),
                                     (ascii ''from_chat_id'', from_chat_id),
                                     (ascii ''message_id'', message_id)])))))))) of
        Inl e \<Rightarrow> ([], Inl e)
      | Inr None \<Rightarrow> ([], Inr (Response lit_success 200))
      | Inr (Some data) \<Rightarrow>
          (case postToTelegramApi rt [] botToken (ascii ''copyMessage'') data of
             (trace, Inl e) \<Rightarrow> (trace, Inl e)
           | (trace, Inr r) \<Rightarrow> (trace, Inr (Response lit_success 200))))"

text \<open>The sender's display name: \<^verbatim>\<open>@username\<close>, or the truthy ones of first and last
  name joined by a space.\<close>

definition senderName_of :: "jsval \<Rightarrow> js_error + jsstring" where
  "senderName_of sender =
     bindE (get sender (ascii ''username'')) (\<lambda>username.
       if truthy username then bindE (ToString username) (\<lambda>u. Inr (ascii ''@'' @ u))
       else bindE (get sender (ascii ''first_name'')) (\<lambda>first_name.
            bindE (get sender (ascii ''last_name'')) (\<lambda>last_name.
              join (ascii '' '') (map ToString (filter truthy [first_name, last_name])))))"

text \<open>The inline keyboard of the closure \<^verbatim>\<open>copyMessage(withUrl)\<close>: one row with one
  element; with a link, the label changes and \<^verbatim>\<open>url\<close> is added.\<close>

definition marker :: "jsstring \<Rightarrow> jsstring \<Rightarrow> bool \<Rightarrow> jsval" where
  "marker senderName senderUid withUrl =
     JArr [JArr [JObj (
       if withUrl
       then [(ascii ''text'', JStr (lit_unlocked @ senderName @ ascii '' ('' @ senderUid @ ascii '')'')),
             (ascii ''callback_data'', JStr senderUid),
             (ascii ''url'', JStr (ascii ''tg://user?id='' @ senderUid))]
       else [(ascii ''text'', JStr (lit_locked @ senderName @ ascii '' ('' @ senderUid @ ascii '')'')),
             (ascii ''callback_data'', JStr senderUid)])]]"

definition copyMessage ::
  "runtime \<Rightarrow> api_call list \<Rightarrow> jsval \<Rightarrow> jsval \<Rightarrow> jsval \<Rightarrow> jsstring \<Rightarrow> jsstring \<Rightarrow> bool
     \<Rightarrow> api_call list \<times> (js_error + remote_response)" where
  "copyMessage rt trace ownerUid botToken message senderName senderUid withUrl =
     (case bindE (parseInt ownerUid) (\<lambda>chat_id.
           bindE (get_path message [ascii ''chat'', ascii ''id'']) (\<lambda>from_chat_id.
           bindE (get message (ascii ''message_id'')) (\<lambda>message_id.
             Inr (JObj [(ascii ''chat_id'', JNum chat_id),
                        (ascii ''from_chat_id'', from_chat_id),
                        (ascii ''message_id'', message_id),
                        (ascii ''reply_markup'',
                           JObj [(ascii ''inline_keyboard'',
                                  marker senderName senderUid withUrl)])])))) of
        Inl e \<Rightarrow> (trace, Inl e)
      | Inr data \<Rightarrow> postToTelegramApi rt trace botToken (ascii ''copyMessage'') data)"

text \<open>What follows the reply branch in the \<^verbatim>\<open>try\<close> block: the \<^verbatim>\<open>/start\<close> test,
  the sender's identity, the first attempt and the fallback.\<close>

definition inbound_branch :: "runtime \<Rightarrow> jsval \<Rightarrow> jsval \<Rightarrow> jsval \<Rightarrow> outcome" where
  "inbound_branch rt ownerUid botToken message =
     (case get message (ascii ''text'') of
        Inl e \<Rightarrow> ([], Inl e)
      | Inr text \<Rightarrow>
          if JStr (ascii ''/start'') = text then ([], Inr (Response lit_success 200))
          else
            (case bindE (get message (ascii ''chat'')) (\<lambda>sender.
                  bindE (bindE (get sender (ascii ''id'')) toString) (\<lambda>senderUid.
                  bindE (senderName_of sender) (\<lambda>senderName. Inr (senderName, senderUid)))) of
               Inl e \<Rightarrow> ([], Inl e)
             | Inr (senderName, senderUid) \<Rightarrow>
                 (case copyMessage rt [] ownerUid botToken message senderName senderUid True of
                    (trace, Inl e) \<Rightarrow> (trace, Inl e)
                  | (trace, Inr response) \<Rightarrow>
                      if \<not> ok response
                      then (case copyMessage rt trace ownerUid botToken message
                                   senderName senderUid False of
                              (trace', Inl e) \<Rightarrow> (trace', Inl e)
                            | (trace', Inr r) \<Rightarrow> (trace', Inr (Response lit_success 200)))
                      else (trace, Inr (Response lit_success 200)))))"

text \<open>The \<^verbatim>\<open>try\<close> block.\<close>

definition relay :: "runtime \<Rightarrow> jsval \<Rightarrow> jsval \<Rightarrow> jsval \<Rightarrow> jsval \<Rightarrow> outcome" where
  "relay rt ownerUid botToken message reply =
     (case is_owner_reply reply message ownerUid of
        Inl e \<Rightarrow> ([], Inl e)
      | Inr True \<Rightarrow> reply_branch rt botToken message reply
      | Inr False \<Rightarrow> inbound_branch rt ownerUid botToken message)"

text \<open>\<^verbatim>\<open>secretToken !== request.headers.get(...)\<close>: the header as a value.\<close>

definition header_value :: "jsstring option \<Rightarrow> jsval" where
  "header_value h = (case h of None \<Rightarrow> JNull | Some s \<Rightarrow> JStr s)"

definition handleWebhook :: "runtime \<Rightarrow> request \<Rightarrow> jsval \<Rightarrow> jsval \<Rightarrow> jsval \<Rightarrow> outcome" where
  "handleWebhook rt request ownerUid botToken secretToken =
     (if secretToken \<noteq> header_value (secret_token_header request)
      then ([], Inr (Response lit_unauthorized 401))
      else
        (case json request of
           None \<Rightarrow> ([], Inl SyntaxError)
         | Some update \<Rightarrow>
             (case get update (ascii ''message'') of
                Inl e \<Rightarrow> ([], Inl e)
              | Inr message \<Rightarrow>
                  if \<not> truthy message then ([], Inr (Response lit_success 200))
                  else
                    (case get message (ascii ''reply_to_message'') of
                       Inl e \<Rightarrow> ([], Inl e)
                     | Inr reply \<Rightarrow>
                         (case relay rt ownerUid botToken message reply of
                            (trace, Inl error) \<Rightarrow> (trace, Inr (Response lit_internal_error 500))
                          | (trace, Inr r) \<Rightarrow> (trace, Inr r))))))"

subsection \<open>handleRequest and the entry point\<close>

text \<open>\<^verbatim>\<open>match[1]\<close> and \<^verbatim>\<open>match[2]\<close> of a match that is truthy.\<close>

definition groups :: "jsval \<Rightarrow> js_error + jsval \<times> jsval" where
  "groups m = bindE (index m 1) (\<lambda>g1. bindE (index m 2) (\<lambda>g2. Inr (g1, g2)))"

definition handleRequest :: "runtime \<Rightarrow> request \<Rightarrow> jsval \<Rightarrow> outcome" where
  "handleRequest rt request config =
     (case bindE (get config (ascii ''prefix'')) (\<lambda>prefix.
           bindE (get config (ascii ''secretToken'')) (\<lambda>secretToken.
           bindE (ToString prefix) (\<lambda>p. Inr (prefix, secretToken, p)))) of
        Inl e \<Rightarrow> ([], Inl e)
      | Inr (prefix, secretToken, p) \<Rightarrow>
          let path = pathname (url request) in
          (case (new_RegExp rt (ascii ''^/'' @ p @ ascii ''/install/([^/]+)/([^/]+)$''),
                 new_RegExp rt (ascii ''^/'' @ p @ ascii ''/uninstall/([^/]+)$''),
                 new_RegExp rt (ascii ''^/'' @ p @ ascii ''/webhook/([^/]+)/([^/]+)$'')) of
             (Some INSTALL_PATTERN, Some UNINSTALL_PATTERN, Some WEBHOOK_PATTERN) \<Rightarrow>
               if truthy (INSTALL_PATTERN path)
               then (case groups (INSTALL_PATTERN path) of
                       Inl e \<Rightarrow> ([], Inl e)
                     | Inr (g1, g2) \<Rightarrow> handleInstall rt request g1 g2 prefix secretToken)
               else if truthy (UNINSTALL_PATTERN path)
               then (case index (UNINSTALL_PATTERN path) 1 of
                       Inl e \<Rightarrow> ([], Inl e)
                     | Inr g1 \<Rightarrow> handleUninstall rt g1 secretToken)
               else if truthy (WEBHOOK_PATTERN path)
               then (case groups (WEBHOOK_PATTERN path) of
                       Inl e \<Rightarrow> ([], Inl e)
                     | Inr (g1, g2) \<Rightarrow> handleWebhook rt request g1 g2 secretToken)
               else ([], Inr (Response lit_not_found 404))
           | _ \<Rightarrow> ([], Inl SyntaxError)))"

text \<open>The entry point of the worker: \<^verbatim>\<open>env.PREFIX ?? 'public'\<close> and
  \<^verbatim>\<open>env.SECRET_TOKEN ?? ''\<close>.\<close>

definition nullish :: "jsval \<Rightarrow> jsval \<Rightarrow> jsval" where
  "nullish v d = (if v = JUndefined \<or> v = JNull then d else v)"

definition onRequest :: "runtime \<Rightarrow> request \<Rightarrow> jsval \<Rightarrow> outcome" where
  "onRequest rt request env =
     (case bindE (get env (ascii ''PREFIX'')) (\<lambda>PREFIX.
           bindE (get env (ascii ''SECRET_TOKEN'')) (\<lambda>SECRET_TOKEN.
             Inr (JObj [(ascii ''prefix'', nullish PREFIX (JStr (ascii ''public''))),
                        (ascii ''secretToken'', nullish SECRET_TOKEN (JStr []))]))) of
        Inl e \<Rightarrow> ([], Inl e)
      | Inr config \<Rightarrow> handleRequest rt request config)"

section \<open>The second source file of the core\<close>

text \<open>
  The repository holds the core a second time, with its identifiers in Chinese.
  The model spells them in pinyin: \<open>jiaoyan_miyao\<close> (validate the secret),
  \<open>JSON_xiangying\<close> (JSON response), \<open>fasongdao_TelegramAPI\<close> (send to the Telegram
  API), \<open>anzhuang_Webhook\<close> (install), \<open>xiezai_Webhook\<close> (uninstall),
  \<open>chuli_Webhook\<close> (handle a delivery), \<open>fuzhi_xiaoxi\<close> (copy the message) and
  \<open>chuli_qingqiu\<close> (handle a request); the parts of the delivery handler carry the
  names of the first file with \<open>_zh\<close>. Every function is translated from this file
  on its own. Its literals differ from the first file's in the success body
  (\<^verbatim>\<open>OK\<close>), in three messages, and in the two property names that
  \<open>chuli_qingqiu\<close> reads from the configuration object (U+524D U+7F00, prefix, and
  U+5BC6 U+94A5, secret).
\<close>

definition lit_OK :: jsstring where
  "lit_OK = ascii ''OK''"

definition lit_invalid_secret_zh :: jsstring where
  "lit_invalid_secret_zh =
     [0x5BC6, 0x94A5, 0x5FC5, 0x987B, 0x81F3, 0x5C11, 0x0031, 0x0036, 0x4E2A, 0x5B57,
      0x7B26, 0xFF0C, 0x5E76, 0x4E14, 0x5305, 0x542B, 0x5927, 0x5199, 0x5B57, 0x6BCD,
      0x3001, 0x5C0F, 0x5199, 0x5B57, 0x6BCD, 0x548C, 0x6570, 0x5B57, 0x3002]"

definition lit_install_error_zh :: jsstring where
  "lit_install_error_zh = [0x5B89, 0x88C5] @ ascii '' webhook '' @ [0x51FA, 0x9519, 0xFF1A]"

definition lit_uninstall_error_zh :: jsstring where
  "lit_uninstall_error_zh = [0x5378, 0x8F7D] @ ascii '' webhook '' @ [0x51FA, 0x9519, 0xFF1A]"

definition lit_prefix_zh :: jsstring where
  "lit_prefix_zh = [0x524D, 0x7F00]"

definition lit_secret_zh :: jsstring where
  "lit_secret_zh = [0x5BC6, 0x94A5]"

text \<open>The validation of the secret, the JSON response and the call of the remote API.\<close>

definition jiaoyan_miyao :: "runtime \<Rightarrow> jsval \<Rightarrow> js_error + bool" where
  "jiaoyan_miyao rt token =
     bindE (get token (ascii ''length'')) (\<lambda>len.
     bindE (greater_than rt len 15) (\<lambda>long.
       if \<not> long then Inr False
       else bindE (class_test 0x41 0x5A token) (\<lambda>upper.
         if \<not> upper then Inr False
         else bindE (class_test 0x61 0x7A token) (\<lambda>lower.
           if \<not> lower then Inr False
           else class_test 0x30 0x39 token))))"

definition JSON_xiangying :: "bool \<Rightarrow> message_text \<Rightarrow> nat \<Rightarrow> response" where
  "JSON_xiangying success msg st = \<lparr>status = st, content = Json success msg\<rparr>"

definition fasongdao_TelegramAPI ::
  "runtime \<Rightarrow> api_call list \<Rightarrow> jsval \<Rightarrow> jsstring \<Rightarrow> jsval
     \<Rightarrow> api_call list \<times> (js_error + remote_response)" where
  "fasongdao_TelegramAPI rt trace token method data =
     (case ToString token of
        Inl e \<Rightarrow> (trace, Inl e)
      | Inr t \<Rightarrow>
          let call = \<lparr>endpoint = ascii ''https://api.telegram.org/bot'' @ t @ ascii ''/'' @ method,
                      body = JSON_stringify data\<rparr>
          in (trace @ [call],
              case fetch rt trace call of None \<Rightarrow> Inl NetworkError | Some r \<Rightarrow> Inr r))"

text \<open>Install and uninstall: validation, then the \<^verbatim>\<open>try\<close> around the call and its
  answer.\<close>

definition anzhuang_Webhook ::
  "runtime \<Rightarrow> request \<Rightarrow> jsval \<Rightarrow> jsval \<Rightarrow> jsval \<Rightarrow> jsval \<Rightarrow> outcome" where
  "anzhuang_Webhook rt request ownerUid botToken prefix secretToken =
     (case jiaoyan_miyao rt secretToken of
        Inl e \<Rightarrow> ([], Inl e)
      | Inr False \<Rightarrow> ([], Inr (JSON_xiangying False (Text lit_invalid_secret_zh) 400))
      | Inr True \<Rightarrow>
          let baseUrl = protocol (url request) @ ascii ''//'' @ hostname (url request) in
          (case bindE (ToString prefix) (\<lambda>p.
                bindE (ToString ownerUid) (\<lambda>uid.
                bindE (ToString botToken) (\<lambda>tok.
                  Inr (baseUrl @ ascii ''/'' @ p @ ascii ''/webhook/'' @ uid @ ascii ''/'' @ tok)))) of
             Inl e \<Rightarrow> ([], Inl e)
           | Inr webhookUrl \<Rightarrow>
               (case fasongdao_TelegramAPI rt [] botToken (ascii ''setWebhook'')
                       (JObj [(ascii ''url'', JStr webhookUrl),
                              (ascii ''allowed_updates'', JArr [JStr (ascii ''message'')]),
                              (ascii ''secret_token'', secretToken)]) of
                  (trace, Inl error) \<Rightarrow>
                    (trace, Inr (JSON_xiangying False (TextOfError lit_install_error_zh error) 500))
                | (trace, Inr response) \<Rightarrow>
                    (trace,
                     case (case parsed response of
                             None \<Rightarrow> Inl SyntaxError
                           | Some result \<Rightarrow>
                               bindE (get result (ascii ''ok'')) (\<lambda>result_ok.
                                 if truthy result_ok
                                 then Inr (JSON_xiangying True (Text lit_install_ok) 200)
                                 else bindE (get result (ascii ''description'')) (\<lambda>description.
                                      bindE (ToString description) (\<lambda>d.
                                        Inr (JSON_xiangying False
                                               (Text (lit_install_failed @ d)) 400))))) of
                       Inl error \<Rightarrow>
                         Inr (JSON_xiangying False (TextOfError lit_install_error_zh error) 500)
                     | Inr r \<Rightarrow> Inr r))))"

definition xiezai_Webhook :: "runtime \<Rightarrow> jsval \<Rightarrow> jsval \<Rightarrow> outcome" where
  "xiezai_Webhook rt botToken secretToken =
     (case jiaoyan_miyao rt secretToken of
        Inl e \<Rightarrow> ([], Inl e)
      | Inr False \<Rightarrow> ([], Inr (JSON_xiangying False (Text lit_invalid_secret_zh) 400))
      | Inr True \<Rightarrow>
          (case fasongdao_TelegramAPI rt [] botToken (ascii ''deleteWebhook'') (JObj []) of
             (trace, Inl error) \<Rightarrow>
               (trace, Inr (JSON_xiangying False (TextOfError lit_uninstall_error_zh error) 500))
           | (trace, Inr response) \<Rightarrow>
               (trace,
                case (case parsed response of
                        None \<Rightarrow> Inl SyntaxError
                      | Some result \<Rightarrow>
                          bindE (get result (ascii ''ok'')) (\<lambda>result_ok.
                            if truthy result_ok
                            then Inr (JSON_xiangying True (Text lit_uninstall_ok) 200)
                            else bindE (get result (ascii ''description'')) (\<lambda>description.
                                 bindE (ToString description) (\<lambda>d.
                                   Inr (JSON_xiangying False
                                          (Text (lit_uninstall_failed @ d)) 400))))) of
                  Inl error \<Rightarrow>
                    Inr (JSON_xiangying False (TextOfError lit_uninstall_error_zh error) 500)
                | Inr r \<Rightarrow> Inr r)))"

text \<open>The delivery handler, in the parts of the first file: the condition of the
  reply branch, the test for inline markup, the sender's id out of the marker and the
  reply branch.\<close>

definition is_owner_reply_zh :: "jsval \<Rightarrow> jsval \<Rightarrow> jsval \<Rightarrow> js_error + bool" where
  "is_owner_reply_zh reply message ownerUid =
     (if \<not> truthy reply then Inr False
      else bindE (get_path message [ascii ''chat'', ascii ''id'']) (\<lambda>chat_id.
           bindE (toString chat_id) (\<lambda>s. Inr (JStr s = ownerUid))))"

definition has_inline_keyboard_zh :: "runtime \<Rightarrow> jsval \<Rightarrow> js_error + bool" where
  "has_inline_keyboard_zh rt rm =
     (if \<not> truthy rm then Inr False
      else bindE (get rm (ascii ''inline_keyboard'')) (\<lambda>inline_keyboard.
        if \<not> truthy inline_keyboard then Inr False
        else bindE (get inline_keyboard (ascii ''length'')) (\<lambda>n. greater_than rt n 0)))"

definition marker_senderUid_zh :: "jsval \<Rightarrow> js_error + jsval" where
  "marker_senderUid_zh rm =
     bindE (get rm (ascii ''inline_keyboard'')) (\<lambda>inline_keyboard.
     bindE (index inline_keyboard 0) (\<lambda>row.
     bindE (index row 0) (\<lambda>button.
     bindE (get button (ascii ''callback_data'')) (\<lambda>senderUid.
       if \<not> truthy senderUid
       then bindE (get button (ascii ''url'')) (\<lambda>link. split_second link (ascii ''tg://user?id=''))
       else Inr senderUid))))"

definition reply_branch_zh :: "runtime \<Rightarrow> jsval \<Rightarrow> jsval \<Rightarrow> jsval \<Rightarrow> outcome" where
  "reply_branch_zh rt botToken message reply =
     (case bindE (get reply (ascii ''reply_markup'')) (\<lambda>rm.
           bindE (has_inline_keyboard_zh rt rm) (\<lambda>present.
             if \<not> present then Inr None
             else bindE (marker_senderUid_zh rm) (\<lambda>senderUid.
                  bindE (parseInt senderUid) (\<lambda>chat_id.
                  bindE (get_path message [ascii ''chat'', ascii ''id'']) (\<lambda>from_chat_id.
                  bindE (get message (ascii ''message_id'')) (\<lambda>message_id.
                    Inr (Some (JObj [(ascii ''chat_id'', JNum chat_id),
                                     (ascii ''from_chat_id'', from_chat_id),
                                     (ascii ''message_id'', message_id)])))))))) of
        Inl e \<Rightarrow> ([], Inl e)
      | Inr None \<Rightarrow> ([], Inr (Response lit_OK 200))
      | Inr (Some data) \<Rightarrow>
          (case fasongdao_TelegramAPI rt [] botToken (ascii ''copyMessage'') data of
             (trace, Inl e) \<Rightarrow> (trace, Inl e)
           | (trace, Inr r) \<Rightarrow> (trace, Inr (Response lit_OK 200))))"

text \<open>The sender's display name, the marker, the closure \<open>fuzhi_xiaoxi\<close> and the rest
  of the \<^verbatim>\<open>try\<close> block.\<close>

definition senderName_of_zh :: "jsval \<Rightarrow> js_error + jsstring" where
  "senderName_of_zh sender =
     bindE (get sender (ascii ''username'')) (\<lambda>username.
       if truthy username then bindE (ToString username) (\<lambda>u. Inr (ascii ''@'' @ u))
       else bindE (get sender (ascii ''first_name'')) (\<lambda>first_name.
            bindE (get sender (ascii ''last_name'')) (\<lambda>last_name.
              join (ascii '' '') (map ToString (filter truthy [first_name, last_name])))))"

definition marker_zh :: "jsstring \<Rightarrow> jsstring \<Rightarrow> bool \<Rightarrow> jsval" where
  "marker_zh senderName senderUid withUrl =
     JArr [JArr [JObj (
       if withUrl
       then [(ascii ''text'', JStr (lit_unlocked @ senderName @ ascii '' ('' @ senderUid @ ascii '')'')),
             (ascii ''callback_data'', JStr senderUid),
             (ascii ''url'', JStr (ascii ''tg://user?id='' @ senderUid))]
       else [(ascii ''text'', JStr (lit_locked @ senderName @ ascii '' ('' @ senderUid @ ascii '')'')),
             (ascii ''callback_data'', JStr senderUid)])]]"

definition fuzhi_xiaoxi ::
  "runtime \<Rightarrow> api_call list \<Rightarrow> jsval \<Rightarrow> jsval \<Rightarrow> jsval \<Rightarrow> jsstring \<Rightarrow> jsstring \<Rightarrow> bool
     \<Rightarrow> api_call list \<times> (js_error + remote_response)" where
  "fuzhi_xiaoxi rt trace ownerUid botToken message senderName senderUid withUrl =
     (case bindE (parseInt ownerUid) (\<lambda>chat_id.
           bindE (get_path message [ascii ''chat'', ascii ''id'']) (\<lambda>from_chat_id.
           bindE (get message (ascii ''message_id'')) (\<lambda>message_id.
             Inr (JObj [(ascii ''chat_id'', JNum chat_id),
                        (ascii ''from_chat_id'', from_chat_id),
                        (ascii ''message_id'', message_id),
                        (ascii ''reply_markup'',
                           JObj [(ascii ''inline_keyboard'',
                                  marker_zh senderName senderUid withUrl)])])))) of
        Inl e \<Rightarrow> (trace, Inl e)
      | Inr data \<Rightarrow> fasongdao_TelegramAPI rt trace botToken (ascii ''copyMessage'') data)"

definition inbound_branch_zh :: "runtime \<Rightarrow> jsval \<Rightarrow> jsval \<Rightarrow> jsval \<Rightarrow> outcome" where
  "inbound_branch_zh rt ownerUid botToken message =
     (case get message (ascii ''text'') of
        Inl e \<Rightarrow> ([], Inl e)
      | Inr text \<Rightarrow>
          if JStr (ascii ''/start'') = text then ([], Inr (Response lit_OK 200))
          else
            (case bindE (get message (ascii ''chat'')) (\<lambda>sender.
                  bindE (bindE (get sender (ascii ''id'')) toString) (\<lambda>senderUid.
                  bindE (senderName_of_zh sender) (\<lambda>senderName. Inr (senderName, senderUid)))) of
               Inl e \<Rightarrow> ([], Inl e)
             | Inr (senderName, senderUid) \<Rightarrow>
                 (case fuzhi_xiaoxi rt [] ownerUid botToken message senderName senderUid True of
                    (trace, Inl e) \<Rightarrow> (trace, Inl e)
                  | (trace, Inr response) \<Rightarrow>
                      if \<not> ok response
                      then (case fuzhi_xiaoxi rt trace ownerUid botToken message
                                   senderName senderUid False of
                              (trace', Inl e) \<Rightarrow> (trace', Inl e)
                            | (trace', Inr r) \<Rightarrow> (trace', Inr (Response lit_OK 200)))
                      else (trace, Inr (Response lit_OK 200)))))"

definition relay_zh :: "runtime \<Rightarrow> jsval \<Rightarrow> jsval \<Rightarrow> jsval \<Rightarrow> jsval \<Rightarrow> outcome" where
  "relay_zh rt ownerUid botToken message reply =
     (case is_owner_reply_zh reply message ownerUid of
        Inl e \<Rightarrow> ([], Inl e)
      | Inr True \<Rightarrow> reply_branch_zh rt botToken message reply
      | Inr False \<Rightarrow> inbound_branch_zh rt ownerUid botToken message)"

text \<open>The handler: header, body, \<^verbatim>\<open>message\<close>, then the \<^verbatim>\<open>try\<close> block and its
  \<^verbatim>\<open>catch\<close>.\<close>

definition chuli_Webhook :: "runtime \<Rightarrow> request \<Rightarrow> jsval \<Rightarrow> jsval \<Rightarrow> jsval \<Rightarrow> outcome" where
  "chuli_Webhook rt request ownerUid botToken secretToken =
     (if secretToken \<noteq> header_value (secret_token_header request)
      then ([], Inr (Response lit_unauthorized 401))
      else
        (case json request of
           None \<Rightarrow> ([], Inl SyntaxError)
         | Some update \<Rightarrow>
             (case get update (ascii ''message'') of
                Inl e \<Rightarrow> ([], Inl e)
              | Inr message \<Rightarrow>
                  if \<not> truthy message then ([], Inr (Response lit_OK 200))
                  else
                    (case get message (ascii ''reply_to_message'') of
                       Inl e \<Rightarrow> ([], Inl e)
                     | Inr reply \<Rightarrow>
                         (case relay_zh rt ownerUid botToken message reply of
                            (trace, Inl error) \<Rightarrow> (trace, Inr (Response lit_internal_error 500))
                          | (trace, Inr r) \<Rightarrow> (trace, Inr r))))))"

text \<open>The router. It destructures the configuration under the Chinese names.\<close>

definition chuli_qingqiu :: "runtime \<Rightarrow> request \<Rightarrow> jsval \<Rightarrow> outcome" where
  "chuli_qingqiu rt request config =
     (case bindE (get config lit_prefix_zh) (\<lambda>prefix.
           bindE (get config lit_secret_zh) (\<lambda>secretToken.
           bindE (ToString prefix) (\<lambda>p. Inr (prefix, secretToken, p)))) of
        Inl e \<Rightarrow> ([], Inl e)
      | Inr (prefix, secretToken, p) \<Rightarrow>
          let path = pathname (url request) in
          (case (new_RegExp rt (ascii ''^/'' @ p @ ascii ''/install/([^/]+)/([^/]+)$''),
                 new_RegExp rt (ascii ''^/'' @ p @ ascii ''/uninstall/([^/]+)$''),
                 new_RegExp rt (ascii ''^/'' @ p @ ascii ''/webhook/([^/]+)/([^/]+)$'')) of
             (Some INSTALL_PATTERN, Some UNINSTALL_PATTERN, Some WEBHOOK_PATTERN) \<Rightarrow>
               if truthy (INSTALL_PATTERN path)
               then (case groups (INSTALL_PATTERN path) of
                       Inl e \<Rightarrow> ([], Inl e)
                     | Inr (g1, g2) \<Rightarrow> anzhuang_Webhook rt request g1 g2 prefix secretToken)
               else if truthy (UNINSTALL_PATTERN path)
               then (case index (UNINSTALL_PATTERN path) 1 of
                       Inl e \<Rightarrow> ([], Inl e)
                     | Inr g1 \<Rightarrow> xiezai_Webhook rt g1 secretToken)
               else if truthy (WEBHOOK_PATTERN path)
               then (case groups (WEBHOOK_PATTERN path) of
                       Inl e \<Rightarrow> ([], Inl e)
                     | Inr (g1, g2) \<Rightarrow> chuli_Webhook rt request g1 g2 secretToken)
               else ([], Inr (Response lit_not_found 404))
           | _ \<Rightarrow> ([], Inl SyntaxError)))"

section \<open>A runtime for the examples\<close>

text \<open>
  The examples run the handlers on a concrete runtime. Its regular expressions are
  the fragment the router builds from a prefix without special characters: \<^verbatim>\<open>^\<close>,
  literal characters and groups \<^verbatim>\<open>([^/]+)\<close>, each followed by \<^verbatim>\<open>/\<close> or by the
  final \<^verbatim>\<open>$\<close>. On this fragment a group takes the longest run without a slash and
  nothing is tried again, as in the language; a pattern outside the fragment is
  refused, and no example builds one.
\<close>

datatype rx_item = Lit code_unit | Segment

definition rx_special :: "code_unit \<Rightarrow> bool" where
  "rx_special c \<longleftrightarrow>
     c \<in> set [0x5C, 0x5E, 0x24, 0x2E, 0x7C, 0x3F, 0x2A, 0x2B, 0x28, 0x29, 0x5B, 0x5D, 0x7B, 0x7D]"

fun rx_parse :: "jsstring \<Rightarrow> nat \<Rightarrow> rx_item list option" where
  "rx_parse [] skip = None"
| "rx_parse (c # cs) (Suc skip) = rx_parse cs skip"
| "rx_parse (c # cs) 0 =
     (if c = 0x24 \<and> cs = [] then Some []
      else if take 7 (c # cs) = ascii ''([^/]+)'' then map_option (Cons Segment) (rx_parse cs 6)
      else if rx_special c then None
      else map_option (Cons (Lit c)) (rx_parse cs 0))"

fun segments_delimited :: "rx_item list \<Rightarrow> bool" where
  "segments_delimited [] = True"
| "segments_delimited [Segment] = True"
| "segments_delimited (Segment # Lit c # items) = (c = 0x2F \<and> segments_delimited items)"
| "segments_delimited (Segment # Segment # items) = False"
| "segments_delimited (Lit c # items) = segments_delimited items"

fun rx_run :: "rx_item list \<Rightarrow> jsstring \<Rightarrow> jsstring list option" where
  "rx_run [] s = (if s = [] then Some [] else None)"
| "rx_run (Lit c # items) s =
     (case s of [] \<Rightarrow> None | d # ds \<Rightarrow> if c = d then rx_run items ds else None)"
| "rx_run (Segment # items) s =
     (let g = takeWhile (\<lambda>c. c \<noteq> 0x2F) s
      in if g = [] then None
         else map_option (Cons g) (rx_run items (dropWhile (\<lambda>c. c \<noteq> 0x2F) s)))"

definition example_RegExp :: "jsstring \<Rightarrow> (jsstring \<Rightarrow> jsval) option" where
  "example_RegExp src =
     (case src of
        [] \<Rightarrow> None
      | c # cs \<Rightarrow>
          if c \<noteq> 0x5E then None
          else (case rx_parse cs 0 of
                  None \<Rightarrow> None
                | Some items \<Rightarrow>
                    if \<not> segments_delimited items then None
                    else Some (\<lambda>s. case rx_run items s of
                                       None \<Rightarrow> JNull
                                     | Some gs \<Rightarrow> JArr (map JStr (s # gs)))))"

text \<open>The comparison of a string with a number is exact on strings of decimal
  digits; no example consults it.\<close>

definition example_gt :: "jsstring \<Rightarrow> int \<Rightarrow> bool" where
  "example_gt s n \<longleftrightarrow>
     s \<noteq> [] \<and> list_all (is_digit 10) s
     \<and> int (foldl (\<lambda>a c. a * 10 + digit_value c) 0 s) > n"

definition example_runtime :: "(api_call list \<Rightarrow> api_call \<Rightarrow> remote_response option) \<Rightarrow> runtime" where
  "example_runtime f = \<lparr>new_RegExp = example_RegExp, StringToNumber_gt = example_gt, fetch = f\<rparr>"

text \<open>Three remotes: one that accepts every call, one that refuses every call with
  \<^verbatim>\<open>ok: false\<close>, and one that cannot be reached.\<close>

definition remote_accepts :: "api_call list \<Rightarrow> api_call \<Rightarrow> remote_response option" where
  "remote_accepts trace call =
     Some (RemoteResponse True (Some (JObj [(ascii ''ok'', JBool True)])))"

definition remote_refuses :: "api_call list \<Rightarrow> api_call \<Rightarrow> remote_response option" where
  "remote_refuses trace call =
     Some (RemoteResponse False
             (Some (JObj [(ascii ''ok'', JBool False),
                          (ascii ''description'', JStr (ascii ''Bad Request''))])))"

definition remote_down :: "api_call list \<Rightarrow> api_call \<Rightarrow> remote_response option" where
  "remote_down trace call = None"

text \<open>A delivery to \<^verbatim>\<open>/public/webhook/100/TOKEN\<close> with a header and a body.\<close>

definition delivery :: "jsstring option \<Rightarrow> jsval option \<Rightarrow> request" where
  "delivery header update =
     \<lparr>url = \<lparr>protocol = ascii ''https:'', hostname = ascii ''bot.example'', port = [],
              pathname = ascii ''/public/webhook/100/TOKEN'', search = []\<rparr>,
      secret_token_header = header,
      json = update\<rparr>"

text \<open>The updates of the examples. The owner is chat 100: \<open>owner_reply m\<close> is a
  message the owner writes in reply to the message \<open>m\<close>; \<open>relayed_message button\<close> is
  a relayed message whose marker has \<open>button\<close> as the first element of its first row,
  \<open>plain_message\<close> a message without a marker; \<open>stranger_message t\<close> is the text \<open>t\<close>
  sent to the bot by Ann, chat 42.\<close>

definition owner_message :: "jsval \<Rightarrow> jsval" where
  "owner_message m =
     JObj [(ascii ''message_id'', JNum (Fin 7)),
           (ascii ''chat'', JObj [(ascii ''id'', JNum (Fin 100)),
                                  (ascii ''first_name'', JStr (ascii ''Owner''))]),
           (ascii ''text'', JStr (ascii ''hello'')),
           (ascii ''reply_to_message'', m)]"

definition owner_reply :: "jsval \<Rightarrow> jsval" where
  "owner_reply m =
     JObj [(ascii ''update_id'', JNum (Fin 1)),
           (ascii ''message'', owner_message m)]"

definition relayed_markup :: "jsval \<Rightarrow> jsval" where
  "relayed_markup button = JObj [(ascii ''inline_keyboard'', JArr [JArr [button]])]"

definition relayed_message :: "jsval \<Rightarrow> jsval" where
  "relayed_message button =
     JObj [(ascii ''message_id'', JNum (Fin 5)),
           (ascii ''reply_markup'', relayed_markup button)]"

definition plain_message :: jsval where
  "plain_message =
     JObj [(ascii ''message_id'', JNum (Fin 5)),
           (ascii ''text'', JStr (ascii ''earlier''))]"

text \<open>Four first elements: the marker as the relay attaches it, the marker with the
  link only, a label with nothing else, and a label with another link.\<close>

definition token_and_link :: jsval where
  "token_and_link = JObj [(ascii ''text'', JStr (ascii ''Ann'')),
                          (ascii ''callback_data'', JStr (ascii ''555'')),
                          (ascii ''url'', JStr (ascii ''tg://user?id=555''))]"

definition link_only :: jsval where
  "link_only = JObj [(ascii ''text'', JStr (ascii ''Ann'')),
                     (ascii ''url'', JStr (ascii ''tg://user?id=555''))]"

definition label_only :: jsval where
  "label_only = JObj [(ascii ''text'', JStr (ascii ''Ann''))]"

definition other_link :: jsval where
  "other_link = JObj [(ascii ''text'', JStr (ascii ''Ann'')),
                      (ascii ''url'', JStr (ascii ''https://t.me/ann''))]"

definition stranger :: jsval where
  "stranger = JObj [(ascii ''id'', JNum (Fin 42)),
                    (ascii ''first_name'', JStr (ascii ''Ann''))]"

definition stranger_text :: "jsstring \<Rightarrow> jsval" where
  "stranger_text t =
     JObj [(ascii ''message_id'', JNum (Fin 9)),
           (ascii ''chat'', stranger),
           (ascii ''text'', JStr t)]"

definition stranger_message :: "jsstring \<Rightarrow> jsval" where
  "stranger_message t =
     JObj [(ascii ''update_id'', JNum (Fin 2)),
           (ascii ''message'', stranger_text t)]"

text \<open>A reply whose message names no chat.\<close>

definition chatless_message :: jsval where
  "chatless_message =
     JObj [(ascii ''message_id'', JNum (Fin 3)),
           (ascii ''text'', JStr (ascii ''hello'')),
           (ascii ''reply_to_message'', JObj [(ascii ''message_id'', JNum (Fin 2))])]"

definition chatless_reply :: jsval where
  "chatless_reply = JObj [(ascii ''update_id'', JNum (Fin 4)),
                          (ascii ''message'', chatless_message)]"

text \<open>The configuration object the worker builds, and the same values under the
  property names the second file reads.\<close>

definition worker_config :: jsval where
  "worker_config =
     JObj [(ascii ''prefix'', JStr (ascii ''public'')),
           (ascii ''secretToken'', JStr (ascii ''Abcdefghijklmno1''))]"

definition worker_config_zh :: jsval where
  "worker_config_zh =
     JObj [(lit_prefix_zh, JStr (ascii ''public'')),
           (lit_secret_zh, JStr (ascii ''Abcdefghijklmno1''))]"

text \<open>An install request, with a port and a query in its URL.\<close>

definition install_request :: request where
  "install_request =
     \<lparr>url = \<lparr>protocol = ascii ''https:'', hostname = ascii ''bot.example'',
              port = ascii ''8443'', pathname = ascii ''/public/install/100/TOKEN'',
              search = ascii ''?retry=1''\<rparr>,
      secret_token_header = None,
      json = None\<rparr>"

section \<open>Notions the statements use\<close>

text \<open>\<^verbatim>\<open>s.includes(sep)\<close>: the separator occurs in the string.\<close>

fun String_includes :: "jsstring \<Rightarrow> jsstring \<Rightarrow> bool" where
  "String_includes [] sep = (sep = [])"
| "String_includes (c # cs) sep = (take (length sep) (c # cs) = sep \<or> String_includes cs sep)"

text \<open>Two outcomes agree when they issue the same calls and both throw the same
  error or both answer with the same status.\<close>

definition same_outcome :: "outcome \<Rightarrow> outcome \<Rightarrow> bool" where
  "same_outcome a b \<longleftrightarrow>
     fst a = fst b
     \<and> (case (snd a, snd b) of
          (Inl e, Inl e') \<Rightarrow> e = e'
        | (Inr r, Inr r') \<Rightarrow> status r = status r'
        | _ \<Rightarrow> False)"

section \<open>Basic facts\<close>

lemma bindE_Inl [simp]: "bindE (Inl e) f = Inl e"
  by (simp add: bindE_def)

lemma bindE_Inr [simp]: "bindE (Inr x) f = f x"
  by (simp add: bindE_def)

text \<open>An ASCII literal is determined by its code units.\<close>

lemma of_char_word_nat: "(of_char c :: 16 word) = of_nat (of_char c)"
  by (cases c) (simp add: of_char_def)

lemma of_char_nat_bound: "(of_char c :: nat) < 65536"
proof -
  have "(of_char c :: nat) mod 256 = of_char c" by (rule of_char_mod_256)
  moreover have "(of_char c :: nat) mod 256 < 256" by simp
  ultimately show ?thesis by linarith
qed

lemma unat_of_char16: "unat (of_char c :: 16 word) = of_char c"
  unfolding of_char_word_nat using of_char_nat_bound [of c] by (simp add: unat_of_nat)

lemma of_char16_eq_iff [simp]: "(of_char c :: 16 word) = of_char d \<longleftrightarrow> c = d"
  by (metis unat_of_char16 of_char_eq_iff)

lemma ascii_eq_iff [simp]: "ascii s = ascii t \<longleftrightarrow> s = t"
  unfolding ascii_def by (simp add: inj_on_def inj_map_eq_map)

section \<open>The secret's policy\<close>

text \<open>
  Claim C7. On every string, \<open>validateSecretToken\<close> answers true exactly when the
  string has more than 15 code units, one of them an uppercase ASCII letter, one a
  lowercase ASCII letter and one a decimal digit. The function returns a value and
  nothing else: it issues no call and, on a string, consults nothing of the runtime.
\<close>

theorem validateSecretToken_string:
  "validateSecretToken rt (JStr token) =
     Inr (length token > 15
          \<and> (\<exists>c \<in> set token. 0x41 \<le> c \<and> c \<le> 0x5A)
          \<and> (\<exists>c \<in> set token. 0x61 \<le> c \<and> c \<le> 0x7A)
          \<and> (\<exists>c \<in> set token. 0x30 \<le> c \<and> c \<le> 0x39))"
  by (simp add: validateSecretToken_def class_test_def)

text \<open>A string of 16 code units with the three kinds passes; one without an
  uppercase letter and a digit does not; one of 7 code units does not.\<close>

theorem validateSecretToken_string_witness:
  "validateSecretToken (example_runtime remote_accepts) (JStr (ascii ''Abcdefghijklmno1''))
     = Inr True
   \<and> validateSecretToken (example_runtime remote_accepts) (JStr (ascii ''abcdefghijklmnop''))
     = Inr False
   \<and> validateSecretToken (example_runtime remote_accepts) (JStr (ascii ''Short1A''))
     = Inr False"
  using validateSecretToken_string [of "example_runtime remote_accepts"]
  by (simp add: ascii_def)

section \<open>The delivery handler\<close>

subsection \<open>Facts about values and calls\<close>

lemma get_defined_truthy:
  "get v k = Inr w \<Longrightarrow> w \<noteq> JUndefined \<Longrightarrow> k \<noteq> ascii ''length'' \<Longrightarrow> truthy v"
  by (cases v) (auto split: if_splits)

lemma truthy_get: "truthy v \<Longrightarrow> \<exists>w. get v k = Inr w"
  by (cases v) auto

lemma get_throws: "get v k = Inl e \<longleftrightarrow> e = TypeError \<and> (v = JUndefined \<or> v = JNull)"
  by (cases v) auto

lemma postToTelegramApi_call:
  "ToString token = Inr t \<Longrightarrow>
   postToTelegramApi rt trace token method data =
     (trace @ [\<lparr>endpoint = ascii ''https://api.telegram.org/bot'' @ t @ ascii ''/'' @ method,
                body = JSON_stringify data\<rparr>],
      case fetch rt trace
             \<lparr>endpoint = ascii ''https://api.telegram.org/bot'' @ t @ ascii ''/'' @ method,
              body = JSON_stringify data\<rparr> of
        None \<Rightarrow> Inl NetworkError
      | Some r \<Rightarrow> Inr r)"
  by (simp add: postToTelegramApi_def Let_def)

lemma copyMessage_endpoint:
  "ascii ''https://api.telegram.org/bot'' @ tok @ ascii ''/'' @ ascii ''copyMessage''
     = ascii ''https://api.telegram.org/bot'' @ tok @ ascii ''/copyMessage''"
  by (simp add: ascii_def)

subsection \<open>The example updates\<close>

lemma delivery_parts:
  "JStr s = header_value (secret_token_header (delivery (Some s) u))"
  "secret_token_header (delivery h u) = h"
  "json (delivery h (Some v)) = Some v"
  "json (delivery h None) = None"
  by (simp_all add: delivery_def header_value_def)

lemma toString_100: "toString (JNum (Fin 100)) = Inr (ascii ''100'')"
  by code_simp

lemma toString_42: "toString (JNum (Fin 42)) = Inr (ascii ''42'')"
  by code_simp

lemma parseInt_100: "parseInt (JStr (ascii ''100'')) = Inr (Fin 100)"
  by code_simp

lemma ToString_TOKEN: "ToString (JStr (ascii ''TOKEN'')) = Inr (ascii ''TOKEN'')"
  by simp

lemma owner_reply_parts:
  "get (owner_reply m) (ascii ''message'') = Inr (owner_message m)"
  "get (owner_message m) (ascii ''reply_to_message'') = Inr m"
  "truthy m \<Longrightarrow> is_owner_reply m (owner_message m) (JStr (ascii ''100'')) = Inr True"
  "get_path (owner_message m) [ascii ''chat'', ascii ''id''] = Inr (JNum (Fin 100))"
  "get (owner_message m) (ascii ''message_id'') = Inr (JNum (Fin 7))"
  by (simp_all add: owner_reply_def owner_message_def is_owner_reply_def toString_100)

lemma relayed_message_parts:
  "truthy (relayed_message b)"
  "get (relayed_message b) (ascii ''reply_markup'') = Inr (relayed_markup b)"
  "has_inline_keyboard rt (relayed_markup b) = Inr True"
  "get (relayed_markup b) (ascii ''inline_keyboard'') = Inr (JArr [JArr [b]])"
  "index (JArr [JArr [b]]) 0 = Inr (JArr [b])"
  "index (JArr [b]) 0 = Inr b"
  by (simp_all add: relayed_message_def relayed_markup_def has_inline_keyboard_def)

lemma plain_message_parts:
  "truthy plain_message"
  "get plain_message (ascii ''reply_markup'') = Inr JUndefined"
  "has_inline_keyboard rt JUndefined = Inr False"
  by (simp_all add: plain_message_def has_inline_keyboard_def)

lemma stranger_parts:
  "get (stranger_message t) (ascii ''message'') = Inr (stranger_text t)"
  "truthy (stranger_text t)"
  "get (stranger_text t) (ascii ''reply_to_message'') = Inr JUndefined"
  "is_owner_reply JUndefined (stranger_text t) ownerUid = Inr False"
  "get (stranger_text t) (ascii ''text'') = Inr (JStr t)"
  "get (stranger_text t) (ascii ''chat'') = Inr stranger"
  "get stranger (ascii ''id'') = Inr (JNum (Fin 42))"
  "senderName_of stranger = Inr (ascii ''Ann'')"
  "get (stranger_text t) (ascii ''message_id'') = Inr (JNum (Fin 9))"
  by (simp_all add: stranger_message_def stranger_text_def stranger_def is_owner_reply_def
        senderName_of_def)

lemma remote_accepts_answers:
  "fetch (example_runtime remote_accepts) trace call \<noteq> None"
  "fetch (example_runtime remote_accepts) trace call = Some r \<Longrightarrow> ok r"
  by (auto simp: example_runtime_def remote_accepts_def)

lemma remote_refuses_answers:
  "fetch (example_runtime remote_refuses) trace call \<noteq> None"
  "fetch (example_runtime remote_refuses) trace call = Some r \<Longrightarrow> \<not> ok r"
  by (auto simp: example_runtime_def remote_refuses_def)

subsection \<open>The responses of the handler\<close>

lemma reply_branch_response:
  "reply_branch rt botToken message reply = (trace, Inr r) \<Longrightarrow> r = Response lit_success 200"
  unfolding reply_branch_def
  by (auto split: sum.splits option.splits prod.splits)

lemma inbound_branch_response:
  "inbound_branch rt ownerUid botToken message = (trace, Inr r) \<Longrightarrow> r = Response lit_success 200"
  unfolding inbound_branch_def
  by (auto split: sum.splits option.splits prod.splits if_splits)

lemma relay_response:
  "relay rt ownerUid botToken message reply = (trace, Inr r) \<Longrightarrow> r = Response lit_success 200"
  unfolding relay_def
  by (auto split: sum.splits bool.splits dest: reply_branch_response inbound_branch_response)

lemma relay_outcome:
  "\<exists>trace res. relay rt ownerUid botToken message reply = (trace, res)"
  by (cases "relay rt ownerUid botToken message reply") auto

lemma handleWebhook_response:
  "handleWebhook rt request ownerUid botToken secretToken = (trace, Inr r) \<Longrightarrow>
     (r = Response lit_unauthorized 401 \<and> trace = []
        \<and> secretToken \<noteq> header_value (secret_token_header request))
     \<or> (r = Response lit_success 200 \<or> r = Response lit_internal_error 500)
        \<and> secretToken = header_value (secret_token_header request)"
  unfolding handleWebhook_def
  by (auto split: sum.splits option.splits prod.splits if_splits dest: relay_response)

text \<open>Past the header, the body and a truthy \<^verbatim>\<open>message\<close>, the handler is its
  \<^verbatim>\<open>try\<close> block with the \<^verbatim>\<open>catch\<close> around it.\<close>

lemma handleWebhook_try:
  assumes "secretToken = header_value (secret_token_header request)"
    and "json request = Some update"
    and "get update (ascii ''message'') = Inr message"
    and "truthy message"
    and "get message (ascii ''reply_to_message'') = Inr reply"
  shows "handleWebhook rt request ownerUid botToken secretToken =
           (case relay rt ownerUid botToken message reply of
              (trace, Inl error) \<Rightarrow> (trace, Inr (Response lit_internal_error 500))
            | (trace, Inr r) \<Rightarrow> (trace, Inr r))"
  using assms by (simp add: handleWebhook_def)

subsection \<open>Authentication\<close>

text \<open>
  Claim C4. \<open>handleWebhook\<close> compares the configured secret, a string, with the value
  of the header by \<^verbatim>\<open>!==\<close>. Whenever the header is not exactly the secret (another
  string, however close, or no header at all) the answer is 401 and no remote call is
  issued; when the header is exactly the secret the answer is never 401: the update
  is processed.
\<close>

theorem handleWebhook_authentication:
  "(secret_token_header request \<noteq> Some secret \<longrightarrow>
      handleWebhook rt request ownerUid botToken (JStr secret)
        = ([], Inr (Response lit_unauthorized 401)))
   \<and> (secret_token_header request = Some secret \<longrightarrow>
        (\<forall>trace r. handleWebhook rt request ownerUid botToken (JStr secret) = (trace, Inr r)
           \<longrightarrow> status r \<noteq> 401))"
proof (intro conjI impI allI)
  assume "secret_token_header request \<noteq> Some secret"
  then have "JStr secret \<noteq> header_value (secret_token_header request)"
    by (cases "secret_token_header request") (auto simp: header_value_def)
  then show "handleWebhook rt request ownerUid botToken (JStr secret)
               = ([], Inr (Response lit_unauthorized 401))"
    by (simp add: handleWebhook_def)
next
  fix trace r
  assume eq: "secret_token_header request = Some secret"
    and out: "handleWebhook rt request ownerUid botToken (JStr secret) = (trace, Inr r)"
  from eq have "JStr secret = header_value (secret_token_header request)"
    by (simp add: header_value_def)
  with handleWebhook_response [OF out]
  have "r = Response lit_success 200 \<or> r = Response lit_internal_error 500"
    by auto
  then show "status r \<noteq> 401"
    by (auto simp: Response_def)
qed

text \<open>The secret is \<^verbatim>\<open>Secret\<close>. A header that differs in case, an empty header and
  an absent header are answered 401 with no call; the exact header is not.\<close>

theorem handleWebhook_authentication_witness:
  "handleWebhook (example_runtime remote_accepts)
      (delivery (Some (ascii ''secret'')) (Some (stranger_message (ascii ''hi''))))
      (JStr (ascii ''100'')) (JStr (ascii ''TOKEN'')) (JStr (ascii ''Secret''))
     = ([], Inr (Response lit_unauthorized 401))
   \<and> handleWebhook (example_runtime remote_accepts)
      (delivery (Some []) (Some (stranger_message (ascii ''hi''))))
      (JStr (ascii ''100'')) (JStr (ascii ''TOKEN'')) (JStr (ascii ''Secret''))
     = ([], Inr (Response lit_unauthorized 401))
   \<and> handleWebhook (example_runtime remote_accepts)
      (delivery None (Some (stranger_message (ascii ''hi''))))
      (JStr (ascii ''100'')) (JStr (ascii ''TOKEN'')) (JStr (ascii ''Secret''))
     = ([], Inr (Response lit_unauthorized 401))
   \<and> snd (handleWebhook (example_runtime remote_accepts)
      (delivery (Some (ascii ''Secret'')) (Some (stranger_message (ascii ''hi''))))
      (JStr (ascii ''100'')) (JStr (ascii ''TOKEN'')) (JStr (ascii ''Secret'')))
     = Inr (Response lit_success 200)"
proof -
  have differs:
    "secret_token_header (delivery (Some (ascii ''secret'')) u) \<noteq> Some (ascii ''Secret'')"
    "secret_token_header (delivery (Some []) u) \<noteq> Some (ascii ''Secret'')"
    "secret_token_header (delivery None u) \<noteq> Some (ascii ''Secret'')" for u
    by (simp_all add: delivery_def ascii_def)
  have "snd (handleWebhook (example_runtime remote_accepts)
      (delivery (Some (ascii ''Secret'')) (Some (stranger_message (ascii ''hi''))))
      (JStr (ascii ''100'')) (JStr (ascii ''TOKEN'')) (JStr (ascii ''Secret'')))
     = Inr (Response lit_success 200)"
    by code_simp
  with differs show ?thesis
    using handleWebhook_authentication by simp
qed

subsection \<open>The start command\<close>

text \<open>
  Claim C9. An authenticated update whose message does not take the reply branch
  (the condition of that branch evaluates to false: the message is no reply, or the
  id of its chat, as a string, is not \<open>ownerUid\<close>) and whose text is exactly
  \<^verbatim>\<open>/start\<close> is answered 200 with no remote call, whoever the sender is.
\<close>

theorem start_command_not_relayed:
  assumes "secretToken = header_value (secret_token_header request)"
    and "json request = Some update"
    and "get update (ascii ''message'') = Inr message"
    and "get message (ascii ''reply_to_message'') = Inr reply"
    and "is_owner_reply reply message ownerUid = Inr False"
    and "get message (ascii ''text'') = Inr (JStr (ascii ''/start''))"
  shows "handleWebhook rt request ownerUid botToken secretToken
           = ([], Inr (Response lit_success 200))"
proof -
  have "truthy message"
    using assms(6) by (rule get_defined_truthy) simp_all
  moreover have "relay rt ownerUid botToken message reply = ([], Inr (Response lit_success 200))"
    using assms(5,6) by (simp add: relay_def inbound_branch_def)
  ultimately show ?thesis
    using assms(1-4) by (simp add: handleWebhook_try)
qed

text \<open>Ann sends \<^verbatim>\<open>/start\<close> to the bot of owner 100, and to a bot she owns herself.\<close>

theorem start_command_not_relayed_witness:
  "handleWebhook (example_runtime remote_accepts)
      (delivery (Some (ascii ''Secret'')) (Some (stranger_message (ascii ''/start''))))
      (JStr (ascii ''100'')) (JStr (ascii ''TOKEN'')) (JStr (ascii ''Secret''))
     = ([], Inr (Response lit_success 200))
   \<and> handleWebhook (example_runtime remote_accepts)
      (delivery (Some (ascii ''Secret'')) (Some (stranger_message (ascii ''/start''))))
      (JStr (ascii ''42'')) (JStr (ascii ''TOKEN'')) (JStr (ascii ''Secret''))
     = ([], Inr (Response lit_success 200))"
  using start_command_not_relayed
          [OF delivery_parts(1) [of "ascii ''Secret''"] delivery_parts(3) stranger_parts(1,3,4,5)]
  by blast

subsection \<open>The reply branch\<close>

lemma is_owner_reply_True:
  "is_owner_reply reply message ownerUid = Inr True \<Longrightarrow> truthy reply"
  by (auto simp: is_owner_reply_def split: if_splits)

text \<open>With a marker read and converted, the branch issues one call; its answer is
  not looked at.\<close>

lemma reply_branch_call:
  assumes "get reply (ascii ''reply_markup'') = Inr rm"
    and "has_inline_keyboard rt rm = Inr True"
    and "marker_senderUid rm = Inr senderUid"
    and "parseInt senderUid = Inr target"
    and "get_path message [ascii ''chat'', ascii ''id''] = Inr from_chat_id"
    and "get message (ascii ''message_id'') = Inr message_id"
    and "ToString botToken = Inr tok"
  shows "reply_branch rt botToken message reply =
           ([\<lparr>endpoint = ascii ''https://api.telegram.org/bot'' @ tok @ ascii ''/copyMessage'',
               body = JSON_stringify (JObj [(ascii ''chat_id'', JNum target),
                                            (ascii ''from_chat_id'', from_chat_id),
                                            (ascii ''message_id'', message_id)])\<rparr>],
            case fetch rt []
                   \<lparr>endpoint = ascii ''https://api.telegram.org/bot'' @ tok @ ascii ''/copyMessage'',
                    body = JSON_stringify (JObj [(ascii ''chat_id'', JNum target),
                                                 (ascii ''from_chat_id'', from_chat_id),
                                                 (ascii ''message_id'', message_id)])\<rparr> of
              None \<Rightarrow> Inl NetworkError
            | Some r \<Rightarrow> Inr (Response lit_success 200))"
  using assms unfolding reply_branch_def
  by (simp add: postToTelegramApi_call copyMessage_endpoint
        del: get_path.simps JSON_stringify.simps split: option.splits)

lemma owner_reply_handled:
  assumes "secretToken = header_value (secret_token_header request)"
    and "json request = Some update"
    and "get update (ascii ''message'') = Inr message"
    and "get message (ascii ''reply_to_message'') = Inr reply"
    and "is_owner_reply reply message ownerUid = Inr True"
  shows "handleWebhook rt request ownerUid botToken secretToken =
           (case reply_branch rt botToken message reply of
              (trace, Inl error) \<Rightarrow> (trace, Inr (Response lit_internal_error 500))
            | (trace, Inr r) \<Rightarrow> (trace, Inr r))"
proof -
  have "truthy reply"
    using assms(5) by (rule is_owner_reply_True)
  then have "reply \<noteq> JUndefined"
    by auto
  with assms(4) have "truthy message"
    by (rule get_defined_truthy) simp
  then show ?thesis
    using assms by (simp add: handleWebhook_try relay_def)
qed

lemma parseInt_555: "parseInt (JStr (ascii ''555'')) = Inr (Fin 555)"
  by code_simp

lemma parseInt_undefined: "parseInt JUndefined = Inr NaN"
  by code_simp

lemma split_second_555:
  "split_second (JStr (ascii ''tg://user?id=555'')) (ascii ''tg://user?id='')
     = Inr (JStr (ascii ''555''))"
  by code_simp

lemma split_from_no_separator:
  "\<not> String_includes s sep \<Longrightarrow> split_from sep cur s 0 = [rev cur @ s]"
  by (induction s arbitrary: cur) auto

lemma split_second_no_separator:
  "\<not> String_includes s sep \<Longrightarrow> split_second (JStr s) sep = Inr JUndefined"
  by (simp add: split_second_def split_def split_from_no_separator)

lemma split_second_not_string:
  "\<forall>s. link \<noteq> JStr s \<Longrightarrow> split_second link sep = Inl TypeError"
  by (cases link) (simp_all add: split_second_def)

text \<open>
  Claim C1. Take an authenticated update whose message is a reply and whose chat id,
  as a string, is \<open>ownerUid\<close>, and let the replied-to message carry inline markup with
  a first element \<open>button\<close> in its first row. Then
  \<^item> the relay target is read from the element's \<^verbatim>\<open>callback_data\<close> when that is
    truthy, and otherwise from its \<^verbatim>\<open>url\<close>, as the piece that follows
    \<^verbatim>\<open>tg://user?id=\<close>;
  \<^item> the calls of the handler are the one \<^verbatim>\<open>copyMessage\<close> to that target, or none when
    reading or converting the target throws;
  \<^item> when the marker encodes sender 555, in either of the two ways, the handler
    issues exactly one call, \<^verbatim>\<open>copyMessage\<close> with \<^verbatim>\<open>chat_id\<close> 555, the chat and
    the id of the owner's message and no \<^verbatim>\<open>reply_markup\<close>, and answers 200 as soon
    as the remote answers the call at all (a call that fails in transport is an error
    of the \<^verbatim>\<open>try\<close> block).
\<close>

theorem owner_reply_relayed_to_marker:
  assumes auth: "secretToken = header_value (secret_token_header request)"
    and upd: "json request = Some update"
    and msg: "get update (ascii ''message'') = Inr message"
    and rep: "get message (ascii ''reply_to_message'') = Inr reply"
    and own: "is_owner_reply reply message ownerUid = Inr True"
    and rm: "get reply (ascii ''reply_markup'') = Inr rm"
    and kb: "has_inline_keyboard rt rm = Inr True"
    and el: "get rm (ascii ''inline_keyboard'') = Inr keyboard"
            "index keyboard 0 = Inr row" "index row 0 = Inr button"
    and cb: "get button (ascii ''callback_data'') = Inr callback_data"
    and ids: "get_path message [ascii ''chat'', ascii ''id''] = Inr from_chat_id"
             "get message (ascii ''message_id'') = Inr message_id"
    and tok: "ToString botToken = Inr tok"
  shows "marker_senderUid rm =
           (if truthy callback_data then Inr callback_data
            else bindE (get button (ascii ''url''))
                   (\<lambda>link. split_second link (ascii ''tg://user?id='')))
         \<and> fst (handleWebhook rt request ownerUid botToken secretToken) =
             (case bindE (marker_senderUid rm) parseInt of
                Inl e \<Rightarrow> []
              | Inr target \<Rightarrow>
                  [\<lparr>endpoint = ascii ''https://api.telegram.org/bot'' @ tok @ ascii ''/copyMessage'',
                    body = JSON_stringify (JObj [(ascii ''chat_id'', JNum target),
                                                 (ascii ''from_chat_id'', from_chat_id),
                                                 (ascii ''message_id'', message_id)])\<rparr>])
         \<and> ((callback_data = JStr (ascii ''555'')
              \<or> \<not> truthy callback_data
                \<and> get button (ascii ''url'') = Inr (JStr (ascii ''tg://user?id=555'')))
             \<longrightarrow> fst (handleWebhook rt request ownerUid botToken secretToken) =
                   [\<lparr>endpoint = ascii ''https://api.telegram.org/bot'' @ tok @ ascii ''/copyMessage'',
                     body = JSON_stringify (JObj [(ascii ''chat_id'', JNum (Fin 555)),
                                                  (ascii ''from_chat_id'', from_chat_id),
                                                  (ascii ''message_id'', message_id)])\<rparr>]
                 \<and> get (JSON_stringify (JObj [(ascii ''chat_id'', JNum (Fin 555)),
                                               (ascii ''from_chat_id'', from_chat_id),
                                               (ascii ''message_id'', message_id)]))
                       (ascii ''reply_markup'') = Inr JUndefined
                 \<and> (fetch rt []
                        \<lparr>endpoint = ascii ''https://api.telegram.org/bot'' @ tok @ ascii ''/copyMessage'',
                         body = JSON_stringify (JObj [(ascii ''chat_id'', JNum (Fin 555)),
                                                      (ascii ''from_chat_id'', from_chat_id),
                                                      (ascii ''message_id'', message_id)])\<rparr> \<noteq> None
                      \<longrightarrow> snd (handleWebhook rt request ownerUid botToken secretToken)
                            = Inr (Response lit_success 200)))"
proof -
  note hw = owner_reply_handled [OF auth upd msg rep own]
  have recover: "marker_senderUid rm =
           (if truthy callback_data then Inr callback_data
            else bindE (get button (ascii ''url''))
                   (\<lambda>link. split_second link (ascii ''tg://user?id='')))"
    using el cb by (simp add: marker_senderUid_def)
  have general: "fst (handleWebhook rt request ownerUid botToken secretToken) =
             (case bindE (marker_senderUid rm) parseInt of
                Inl e \<Rightarrow> []
              | Inr target \<Rightarrow>
                  [\<lparr>endpoint = ascii ''https://api.telegram.org/bot'' @ tok @ ascii ''/copyMessage'',
                    body = JSON_stringify (JObj [(ascii ''chat_id'', JNum target),
                                                 (ascii ''from_chat_id'', from_chat_id),
                                                 (ascii ''message_id'', message_id)])\<rparr>])"
  proof (cases "bindE (marker_senderUid rm) parseInt")
    case (Inl e)
    then have "reply_branch rt botToken message reply = ([], Inl e)"
      using rm kb unfolding reply_branch_def
      by (cases "marker_senderUid rm") (simp_all del: get_path.simps)
    then show ?thesis
      using Inl by (simp add: hw)
  next
    case (Inr target)
    then obtain senderUid
      where s: "marker_senderUid rm = Inr senderUid" "parseInt senderUid = Inr target"
      by (cases "marker_senderUid rm") simp_all
    show ?thesis
      using Inr reply_branch_call [OF rm kb s ids tok]
      by (simp add: hw del: JSON_stringify.simps split: option.splits)
  qed
  have bare: "get (JSON_stringify (JObj [(ascii ''chat_id'', JNum (Fin 555)),
                                        (ascii ''from_chat_id'', from_chat_id),
                                        (ascii ''message_id'', message_id)]))
                (ascii ''reply_markup'') = Inr JUndefined"
    by simp
  have marked: "fst (handleWebhook rt request ownerUid botToken secretToken) =
                   [\<lparr>endpoint = ascii ''https://api.telegram.org/bot'' @ tok @ ascii ''/copyMessage'',
                     body = JSON_stringify (JObj [(ascii ''chat_id'', JNum (Fin 555)),
                                                  (ascii ''from_chat_id'', from_chat_id),
                                                  (ascii ''message_id'', message_id)])\<rparr>]
                 \<and> (fetch rt []
                        \<lparr>endpoint = ascii ''https://api.telegram.org/bot'' @ tok @ ascii ''/copyMessage'',
                         body = JSON_stringify (JObj [(ascii ''chat_id'', JNum (Fin 555)),
                                                      (ascii ''from_chat_id'', from_chat_id),
                                                      (ascii ''message_id'', message_id)])\<rparr> \<noteq> None
                      \<longrightarrow> snd (handleWebhook rt request ownerUid botToken secretToken)
                            = Inr (Response lit_success 200))"
    if enc: "callback_data = JStr (ascii ''555'')
              \<or> \<not> truthy callback_data
                \<and> get button (ascii ''url'') = Inr (JStr (ascii ''tg://user?id=555''))"
  proof -
    have "truthy (JStr (ascii ''555''))"
      by (simp add: ascii_def)
    with enc recover have s: "marker_senderUid rm = Inr (JStr (ascii ''555''))"
      by (auto simp: split_second_555)
    show ?thesis
      using reply_branch_call [OF rm kb s parseInt_555 ids tok]
      by (auto simp: hw simp del: JSON_stringify.simps split: option.splits)
  qed
  from recover general bare marked show ?thesis
    by blast
qed

text \<open>The owner replies to a message relayed from chat 555, once with the marker as
  the relay attached it and once with a marker that came back with the link only:
  one call, to 555, and 200.\<close>

theorem owner_reply_relayed_to_marker_witness:
  "fst (handleWebhook (example_runtime remote_accepts)
         (delivery (Some (ascii ''Secret'')) (Some (owner_reply (relayed_message token_and_link))))
         (JStr (ascii ''100'')) (JStr (ascii ''TOKEN'')) (JStr (ascii ''Secret'')))
     = [\<lparr>endpoint = ascii ''https://api.telegram.org/bot'' @ ascii ''TOKEN''
                      @ ascii ''/copyMessage'',
         body = JSON_stringify (JObj [(ascii ''chat_id'', JNum (Fin 555)),
                                      (ascii ''from_chat_id'', JNum (Fin 100)),
                                      (ascii ''message_id'', JNum (Fin 7))])\<rparr>]
   \<and> snd (handleWebhook (example_runtime remote_accepts)
         (delivery (Some (ascii ''Secret'')) (Some (owner_reply (relayed_message token_and_link))))
         (JStr (ascii ''100'')) (JStr (ascii ''TOKEN'')) (JStr (ascii ''Secret'')))
     = Inr (Response lit_success 200)
   \<and> fst (handleWebhook (example_runtime remote_accepts)
         (delivery (Some (ascii ''Secret'')) (Some (owner_reply (relayed_message link_only))))
         (JStr (ascii ''100'')) (JStr (ascii ''TOKEN'')) (JStr (ascii ''Secret'')))
     = [\<lparr>endpoint = ascii ''https://api.telegram.org/bot'' @ ascii ''TOKEN''
                      @ ascii ''/copyMessage'',
         body = JSON_stringify (JObj [(ascii ''chat_id'', JNum (Fin 555)),
                                      (ascii ''from_chat_id'', JNum (Fin 100)),
                                      (ascii ''message_id'', JNum (Fin 7))])\<rparr>]
   \<and> snd (handleWebhook (example_runtime remote_accepts)
         (delivery (Some (ascii ''Secret'')) (Some (owner_reply (relayed_message link_only))))
         (JStr (ascii ''100'')) (JStr (ascii ''TOKEN'')) (JStr (ascii ''Secret'')))
     = Inr (Response lit_success 200)"
proof -
  have buttons:
    "get token_and_link (ascii ''callback_data'') = Inr (JStr (ascii ''555''))"
    "get link_only (ascii ''callback_data'') = Inr JUndefined"
    "\<not> truthy JUndefined"
    "get link_only (ascii ''url'') = Inr (JStr (ascii ''tg://user?id=555''))"
    by (simp_all add: token_and_link_def link_only_def)
  note t = owner_reply_relayed_to_marker
         [OF delivery_parts(1) [of "ascii ''Secret''"] delivery_parts(3) owner_reply_parts(1,2)
             owner_reply_parts(3) [OF relayed_message_parts(1)] relayed_message_parts(2-6)
             _ owner_reply_parts(4,5) ToString_TOKEN,
          where rt = "example_runtime remote_accepts"]
  from t [OF buttons(1)] remote_accepts_answers(1)
  have token: "fst (handleWebhook (example_runtime remote_accepts)
         (delivery (Some (ascii ''Secret'')) (Some (owner_reply (relayed_message token_and_link))))
         (JStr (ascii ''100'')) (JStr (ascii ''TOKEN'')) (JStr (ascii ''Secret'')))
     = [\<lparr>endpoint = ascii ''https://api.telegram.org/bot'' @ ascii ''TOKEN''
                      @ ascii ''/copyMessage'',
         body = JSON_stringify (JObj [(ascii ''chat_id'', JNum (Fin 555)),
                                      (ascii ''from_chat_id'', JNum (Fin 100)),
                                      (ascii ''message_id'', JNum (Fin 7))])\<rparr>]
   \<and> snd (handleWebhook (example_runtime remote_accepts)
         (delivery (Some (ascii ''Secret'')) (Some (owner_reply (relayed_message token_and_link))))
         (JStr (ascii ''100'')) (JStr (ascii ''TOKEN'')) (JStr (ascii ''Secret'')))
     = Inr (Response lit_success 200)"
    by blast
  from t [OF buttons(2)] buttons(3,4) remote_accepts_answers(1)
  have link: "fst (handleWebhook (example_runtime remote_accepts)
         (delivery (Some (ascii ''Secret'')) (Some (owner_reply (relayed_message link_only))))
         (JStr (ascii ''100'')) (JStr (ascii ''TOKEN'')) (JStr (ascii ''Secret'')))
     = [\<lparr>endpoint = ascii ''https://api.telegram.org/bot'' @ ascii ''TOKEN''
                      @ ascii ''/copyMessage'',
         body = JSON_stringify (JObj [(ascii ''chat_id'', JNum (Fin 555)),
                                      (ascii ''from_chat_id'', JNum (Fin 100)),
                                      (ascii ''message_id'', JNum (Fin 7))])\<rparr>]
   \<and> snd (handleWebhook (example_runtime remote_accepts)
         (delivery (Some (ascii ''Secret'')) (Some (owner_reply (relayed_message link_only))))
         (JStr (ascii ''100'')) (JStr (ascii ''TOKEN'')) (JStr (ascii ''Secret'')))
     = Inr (Response lit_success 200)"
    by blast
  from token link show ?thesis
    by simp
qed

text \<open>The same reply when the remote cannot be reached: the call is issued, the
  rejection is caught and the answer is the 500.\<close>

lemma owner_reply_transport_failure:
  "handleWebhook (example_runtime remote_down)
      (delivery (Some (ascii ''Secret'')) (Some (owner_reply (relayed_message link_only))))
      (JStr (ascii ''100'')) (JStr (ascii ''TOKEN'')) (JStr (ascii ''Secret''))
     = ([\<lparr>endpoint = ascii ''https://api.telegram.org/botTOKEN/copyMessage'',
          body = JObj [(ascii ''chat_id'', JNum (Fin 555)),
                       (ascii ''from_chat_id'', JNum (Fin 100)),
                       (ascii ''message_id'', JNum (Fin 7))]\<rparr>],
        Inr (Response lit_internal_error 500))"
  by code_simp

text \<open>
  Claim C6, as the code has it. Take an authenticated reply of the owner.
  \<^item> When the replied-to message has no inline markup (no \<^verbatim>\<open>reply_markup\<close>, no
    \<^verbatim>\<open>inline_keyboard\<close> in it, or an empty one), the handler issues no call and
    answers 200.
  \<^item> When the first element of the markup has no truthy \<^verbatim>\<open>callback_data\<close> and its
    \<^verbatim>\<open>url\<close> is not a string (it is absent, say), reading the marker throws: no
    call is issued and the answer is the 500 of the \<^verbatim>\<open>catch\<close>, not 200.
  \<^item> When the \<^verbatim>\<open>url\<close> is a string in which \<^verbatim>\<open>tg://user?id=\<close> does not occur, the
    target is \<^verbatim>\<open>parseInt(undefined)\<close>: one \<^verbatim>\<open>copyMessage\<close> is issued, with NaN as
    \<^verbatim>\<open>chat_id\<close> (\<^verbatim>\<open>null\<close> in the JSON text), and the answer is 200 when the remote
    answers the call.
\<close>

theorem owner_reply_without_usable_marker:
  assumes auth: "secretToken = header_value (secret_token_header request)"
    and upd: "json request = Some update"
    and msg: "get update (ascii ''message'') = Inr message"
    and rep: "get message (ascii ''reply_to_message'') = Inr reply"
    and own: "is_owner_reply reply message ownerUid = Inr True"
    and rm: "get reply (ascii ''reply_markup'') = Inr rm"
    and ids: "get_path message [ascii ''chat'', ascii ''id''] = Inr from_chat_id"
             "get message (ascii ''message_id'') = Inr message_id"
    and tok: "ToString botToken = Inr tok"
  shows "(has_inline_keyboard rt rm = Inr False \<longrightarrow>
            handleWebhook rt request ownerUid botToken secretToken
              = ([], Inr (Response lit_success 200)))
         \<and> (has_inline_keyboard rt rm = Inr True
              \<and> get rm (ascii ''inline_keyboard'') = Inr keyboard
              \<and> index keyboard 0 = Inr row \<and> index row 0 = Inr button
              \<and> get button (ascii ''callback_data'') = Inr callback_data
              \<and> \<not> truthy callback_data
              \<and> get button (ascii ''url'') = Inr link \<longrightarrow>
             ((\<forall>s. link \<noteq> JStr s) \<longrightarrow>
                handleWebhook rt request ownerUid botToken secretToken
                  = ([], Inr (Response lit_internal_error 500)))
             \<and> (\<forall>s. link = JStr s \<and> \<not> String_includes s (ascii ''tg://user?id='') \<longrightarrow>
                  fst (handleWebhook rt request ownerUid botToken secretToken) =
                    [\<lparr>endpoint = ascii ''https://api.telegram.org/bot'' @ tok @ ascii ''/copyMessage'',
                      body = JSON_stringify (JObj [(ascii ''chat_id'', JNum NaN),
                                                   (ascii ''from_chat_id'', from_chat_id),
                                                   (ascii ''message_id'', message_id)])\<rparr>]
                  \<and> (fetch rt []
                        \<lparr>endpoint = ascii ''https://api.telegram.org/bot'' @ tok @ ascii ''/copyMessage'',
                         body = JSON_stringify (JObj [(ascii ''chat_id'', JNum NaN),
                                                      (ascii ''from_chat_id'', from_chat_id),
                                                      (ascii ''message_id'', message_id)])\<rparr> \<noteq> None
                      \<longrightarrow> snd (handleWebhook rt request ownerUid botToken secretToken)
                            = Inr (Response lit_success 200))))"
proof -
  note hw = owner_reply_handled [OF auth upd msg rep own]
  have none: "handleWebhook rt request ownerUid botToken secretToken
                = ([], Inr (Response lit_success 200))"
    if "has_inline_keyboard rt rm = Inr False"
    using that rm by (simp add: hw reply_branch_def)
  have thrown: "handleWebhook rt request ownerUid botToken secretToken
                  = ([], Inr (Response lit_internal_error 500))"
    if kb: "has_inline_keyboard rt rm = Inr True"
      and el: "get rm (ascii ''inline_keyboard'') = Inr keyboard"
              "index keyboard 0 = Inr row" "index row 0 = Inr button"
              "get button (ascii ''callback_data'') = Inr callback_data"
              "\<not> truthy callback_data" "get button (ascii ''url'') = Inr link"
      and link: "\<forall>s. link \<noteq> JStr s"
  proof -
    have "marker_senderUid rm = Inl TypeError"
      using el split_second_not_string [OF link] by (simp add: marker_senderUid_def)
    then have "reply_branch rt botToken message reply = ([], Inl TypeError)"
      using rm kb by (simp add: reply_branch_def del: get_path.simps)
    then show ?thesis
      by (simp add: hw)
  qed
  have unusable:
    "fst (handleWebhook rt request ownerUid botToken secretToken) =
       [\<lparr>endpoint = ascii ''https://api.telegram.org/bot'' @ tok @ ascii ''/copyMessage'',
         body = JSON_stringify (JObj [(ascii ''chat_id'', JNum NaN),
                                      (ascii ''from_chat_id'', from_chat_id),
                                      (ascii ''message_id'', message_id)])\<rparr>]
     \<and> (fetch rt []
           \<lparr>endpoint = ascii ''https://api.telegram.org/bot'' @ tok @ ascii ''/copyMessage'',
            body = JSON_stringify (JObj [(ascii ''chat_id'', JNum NaN),
                                         (ascii ''from_chat_id'', from_chat_id),
                                         (ascii ''message_id'', message_id)])\<rparr> \<noteq> None
         \<longrightarrow> snd (handleWebhook rt request ownerUid botToken secretToken)
               = Inr (Response lit_success 200))"
    if kb: "has_inline_keyboard rt rm = Inr True"
      and el: "get rm (ascii ''inline_keyboard'') = Inr keyboard"
              "index keyboard 0 = Inr row" "index row 0 = Inr button"
              "get button (ascii ''callback_data'') = Inr callback_data"
              "\<not> truthy callback_data" "get button (ascii ''url'') = Inr link"
      and link: "link = JStr s" "\<not> String_includes s (ascii ''tg://user?id='')"
    for s
  proof -
    have s: "marker_senderUid rm = Inr JUndefined"
      using el link by (simp add: marker_senderUid_def split_second_no_separator)
    show ?thesis
      using reply_branch_call [OF rm kb s parseInt_undefined ids tok]
      by (auto simp: hw simp del: JSON_stringify.simps split: option.splits)
  qed
  from none thrown unusable show ?thesis
    by blast
qed

text \<open>The owner replies to a message whose marker has a label and nothing else. The
  claim promises 200; the handler answers 500.\<close>

theorem owner_reply_without_usable_marker_counterexample:
  "handleWebhook (example_runtime remote_accepts)
      (delivery (Some (ascii ''Secret'')) (Some (owner_reply (relayed_message label_only))))
      (JStr (ascii ''100'')) (JStr (ascii ''TOKEN'')) (JStr (ascii ''Secret''))
     = ([], Inr (Response lit_internal_error 500))
   \<and> status (Response lit_internal_error 500) \<noteq> 200"
  by code_simp

text \<open>The three cases: the owner replies to a message without a marker, to one whose
  marker has a label and nothing else, and to one whose marker links elsewhere.\<close>

theorem owner_reply_without_usable_marker_witness:
  "handleWebhook (example_runtime remote_accepts)
      (delivery (Some (ascii ''Secret'')) (Some (owner_reply plain_message)))
      (JStr (ascii ''100'')) (JStr (ascii ''TOKEN'')) (JStr (ascii ''Secret''))
     = ([], Inr (Response lit_success 200))
   \<and> handleWebhook (example_runtime remote_accepts)
      (delivery (Some (ascii ''Secret'')) (Some (owner_reply (relayed_message label_only))))
      (JStr (ascii ''100'')) (JStr (ascii ''TOKEN'')) (JStr (ascii ''Secret''))
     = ([], Inr (Response lit_internal_error 500))
   \<and> fst (handleWebhook (example_runtime remote_accepts)
      (delivery (Some (ascii ''Secret'')) (Some (owner_reply (relayed_message other_link))))
      (JStr (ascii ''100'')) (JStr (ascii ''TOKEN'')) (JStr (ascii ''Secret'')))
     = [\<lparr>endpoint = ascii ''https://api.telegram.org/bot'' @ ascii ''TOKEN''
                      @ ascii ''/copyMessage'',
         body = JSON_stringify (JObj [(ascii ''chat_id'', JNum NaN),
                                      (ascii ''from_chat_id'', JNum (Fin 100)),
                                      (ascii ''message_id'', JNum (Fin 7))])\<rparr>]
   \<and> snd (handleWebhook (example_runtime remote_accepts)
      (delivery (Some (ascii ''Secret'')) (Some (owner_reply (relayed_message other_link))))
      (JStr (ascii ''100'')) (JStr (ascii ''TOKEN'')) (JStr (ascii ''Secret'')))
     = Inr (Response lit_success 200)"
proof -
  have buttons:
    "get label_only (ascii ''callback_data'') = Inr JUndefined"
    "get label_only (ascii ''url'') = Inr JUndefined"
    "get other_link (ascii ''callback_data'') = Inr JUndefined"
    "get other_link (ascii ''url'') = Inr (JStr (ascii ''https://t.me/ann''))"
    "\<not> truthy JUndefined"
    "\<forall>s. JUndefined \<noteq> JStr s"
    by (simp_all add: label_only_def other_link_def)
  have elsewhere: "\<not> String_includes (ascii ''https://t.me/ann'') (ascii ''tg://user?id='')"
    by code_simp
  note plain = owner_reply_without_usable_marker
         [OF delivery_parts(1) [of "ascii ''Secret''"] delivery_parts(3) owner_reply_parts(1,2)
             owner_reply_parts(3) [OF plain_message_parts(1)] plain_message_parts(2)
             owner_reply_parts(4,5) ToString_TOKEN,
          where rt = "example_runtime remote_accepts"]
  note marked = owner_reply_without_usable_marker
         [OF delivery_parts(1) [of "ascii ''Secret''"] delivery_parts(3) owner_reply_parts(1,2)
             owner_reply_parts(3) [OF relayed_message_parts(1)] relayed_message_parts(2)
             owner_reply_parts(4,5) ToString_TOKEN,
          where rt = "example_runtime remote_accepts" and callback_data = JUndefined]
  note marked_label = marked
         [of label_only, where keyboard = "JArr [JArr [label_only]]"
            and row = "JArr [label_only]" and button = label_only and link = JUndefined]
  note marked_other = marked
         [of other_link, where keyboard = "JArr [JArr [other_link]]"
            and row = "JArr [other_link]" and button = other_link
            and link = "JStr (ascii ''https://t.me/ann'')"]
  have a: "handleWebhook (example_runtime remote_accepts)
      (delivery (Some (ascii ''Secret'')) (Some (owner_reply plain_message)))
      (JStr (ascii ''100'')) (JStr (ascii ''TOKEN'')) (JStr (ascii ''Secret''))
     = ([], Inr (Response lit_success 200))"
    using plain [THEN conjunct1, THEN mp, OF plain_message_parts(3)] .
  have label: "has_inline_keyboard (example_runtime remote_accepts) (relayed_markup label_only)
                 = Inr True
      \<and> get (relayed_markup label_only) (ascii ''inline_keyboard'')
          = Inr (JArr [JArr [label_only]])
      \<and> index (JArr [JArr [label_only]]) 0 = Inr (JArr [label_only])
      \<and> index (JArr [label_only]) 0 = Inr label_only
      \<and> get label_only (ascii ''callback_data'') = Inr JUndefined
      \<and> \<not> truthy JUndefined
      \<and> get label_only (ascii ''url'') = Inr JUndefined"
    using relayed_message_parts(3-6) buttons(1,2,5) by (intro conjI)
  have b: "handleWebhook (example_runtime remote_accepts)
      (delivery (Some (ascii ''Secret'')) (Some (owner_reply (relayed_message label_only))))
      (JStr (ascii ''100'')) (JStr (ascii ''TOKEN'')) (JStr (ascii ''Secret''))
     = ([], Inr (Response lit_internal_error 500))"
    using marked_label [THEN conjunct2, THEN mp, OF label, THEN conjunct1, THEN mp,
                        OF buttons(6)] .
  have other: "has_inline_keyboard (example_runtime remote_accepts) (relayed_markup other_link)
                 = Inr True
      \<and> get (relayed_markup other_link) (ascii ''inline_keyboard'')
          = Inr (JArr [JArr [other_link]])
      \<and> index (JArr [JArr [other_link]]) 0 = Inr (JArr [other_link])
      \<and> index (JArr [other_link]) 0 = Inr other_link
      \<and> get other_link (ascii ''callback_data'') = Inr JUndefined
      \<and> \<not> truthy JUndefined
      \<and> get other_link (ascii ''url'') = Inr (JStr (ascii ''https://t.me/ann''))"
    using relayed_message_parts(3-6) buttons(3,4,5) by (intro conjI)
  have elsewhere': "JStr (ascii ''https://t.me/ann'') = JStr (ascii ''https://t.me/ann'')
      \<and> \<not> String_includes (ascii ''https://t.me/ann'') (ascii ''tg://user?id='')"
    using elsewhere by simp
  note c0 = marked_other [THEN conjunct2, THEN mp, OF other, THEN conjunct2, THEN spec,
                          THEN mp, OF elsewhere']
  have c: "fst (handleWebhook (example_runtime remote_accepts)
      (delivery (Some (ascii ''Secret'')) (Some (owner_reply (relayed_message other_link))))
      (JStr (ascii ''100'')) (JStr (ascii ''TOKEN'')) (JStr (ascii ''Secret'')))
     = [\<lparr>endpoint = ascii ''https://api.telegram.org/bot'' @ ascii ''TOKEN''
                      @ ascii ''/copyMessage'',
         body = JSON_stringify (JObj [(ascii ''chat_id'', JNum NaN),
                                      (ascii ''from_chat_id'', JNum (Fin 100)),
                                      (ascii ''message_id'', JNum (Fin 7))])\<rparr>]
   \<and> snd (handleWebhook (example_runtime remote_accepts)
      (delivery (Some (ascii ''Secret'')) (Some (owner_reply (relayed_message other_link))))
      (JStr (ascii ''100'')) (JStr (ascii ''TOKEN'')) (JStr (ascii ''Secret'')))
     = Inr (Response lit_success 200)"
    using c0 [THEN conjunct1] c0 [THEN conjunct2, THEN mp, OF remote_accepts_answers(1)]
    by (rule conjI)
  from a b c show ?thesis
    by simp
qed

subsection \<open>The fresh inbound branch\<close>

text \<open>The closure \<^verbatim>\<open>copyMessage(withUrl)\<close>, once the owner's id converts: one call,
  after the calls so far.\<close>

lemma copyMessage_call:
  assumes "parseInt ownerUid = Inr chat_id"
    and "get_path message [ascii ''chat'', ascii ''id''] = Inr from_chat_id"
    and "get message (ascii ''message_id'') = Inr message_id"
    and "ToString botToken = Inr tok"
  shows "copyMessage rt trace ownerUid botToken message senderName senderUid withUrl =
           (trace @
            [\<lparr>endpoint = ascii ''https://api.telegram.org/bot'' @ tok @ ascii ''/copyMessage'',
              body = JSON_stringify
                       (JObj [(ascii ''chat_id'', JNum chat_id),
                              (ascii ''from_chat_id'', from_chat_id),
                              (ascii ''message_id'', message_id),
                              (ascii ''reply_markup'',
                                 JObj [(ascii ''inline_keyboard'',
                                        marker senderName senderUid withUrl)])])\<rparr>],
            case fetch rt trace
                   \<lparr>endpoint = ascii ''https://api.telegram.org/bot'' @ tok @ ascii ''/copyMessage'',
                    body = JSON_stringify
                       (JObj [(ascii ''chat_id'', JNum chat_id),
                              (ascii ''from_chat_id'', from_chat_id),
                              (ascii ''message_id'', message_id),
                              (ascii ''reply_markup'',
                                 JObj [(ascii ''inline_keyboard'',
                                        marker senderName senderUid withUrl)])])\<rparr> of
              None \<Rightarrow> Inl NetworkError
            | Some r \<Rightarrow> Inr r)"
  using assms unfolding copyMessage_def
  by (simp add: postToTelegramApi_call copyMessage_endpoint
        del: get_path.simps JSON_stringify.simps)

text \<open>
  Claim C2. Take an authenticated update that does not take the reply branch, whose
  text is not \<^verbatim>\<open>/start\<close> and whose sender has an id and a name. The first attempt
  \<open>first\<close> is a \<^verbatim>\<open>copyMessage\<close> to the owner whose marker has the open-lock label,
  the sender's id as \<^verbatim>\<open>callback_data\<close> and the deep link as \<^verbatim>\<open>url\<close>.
  \<^item> When the Response of the first attempt has \<^verbatim>\<open>ok\<close> true, \<open>first\<close> is the only
    call and the answer is 200.
  \<^item> When it has \<^verbatim>\<open>ok\<close> false, exactly one more call follows: \<open>fallback\<close>, the
    same \<^verbatim>\<open>copyMessage\<close> whose marker has the locked label (U+1F50F, a lock with a
    pen) and no \<^verbatim>\<open>url\<close>. Its Response is not looked at: whatever it is, the answer
    is 200.
  The \<^verbatim>\<open>ok\<close> the source tests is the property of the Response \<^verbatim>\<open>fetch\<close> resolves
  to. A call that fails in transport is an error of the \<^verbatim>\<open>try\<close> block.
\<close>

theorem inbound_fallback:
  fixes senderName senderUid :: jsstring
  assumes auth: "secretToken = header_value (secret_token_header request)"
    and upd: "json request = Some update"
    and msg: "get update (ascii ''message'') = Inr message" "truthy message"
    and rep: "get message (ascii ''reply_to_message'') = Inr reply"
    and own: "is_owner_reply reply message ownerUid = Inr False"
    and body_text: "get message (ascii ''text'') = Inr t" "t \<noteq> JStr (ascii ''/start'')"
    and sender: "get message (ascii ''chat'') = Inr sender"
                "get sender (ascii ''id'') = Inr from_chat_id"
                "toString from_chat_id = Inr senderUid"
                "senderName_of sender = Inr senderName"
    and owner: "parseInt ownerUid = Inr chat_id"
    and mid: "get message (ascii ''message_id'') = Inr message_id"
    and tok: "ToString botToken = Inr tok"
  defines "first \<equiv>
      \<lparr>endpoint = ascii ''https://api.telegram.org/bot'' @ tok @ ascii ''/copyMessage'',
       body = JSON_stringify
         (JObj [(ascii ''chat_id'', JNum chat_id),
                (ascii ''from_chat_id'', from_chat_id),
                (ascii ''message_id'', message_id),
                (ascii ''reply_markup'',
                 JObj [(ascii ''inline_keyboard'',
                   JArr [JArr [JObj
                     [(ascii ''text'',
                         JStr (lit_unlocked @ senderName @ ascii '' ('' @ senderUid @ ascii '')'')),
                      (ascii ''callback_data'', JStr senderUid),
                      (ascii ''url'', JStr (ascii ''tg://user?id='' @ senderUid))]]])])])\<rparr>"
    and "fallback \<equiv>
      \<lparr>endpoint = ascii ''https://api.telegram.org/bot'' @ tok @ ascii ''/copyMessage'',
       body = JSON_stringify
         (JObj [(ascii ''chat_id'', JNum chat_id),
                (ascii ''from_chat_id'', from_chat_id),
                (ascii ''message_id'', message_id),
                (ascii ''reply_markup'',
                 JObj [(ascii ''inline_keyboard'',
                   JArr [JArr [JObj
                     [(ascii ''text'',
                         JStr (lit_locked @ senderName @ ascii '' ('' @ senderUid @ ascii '')'')),
                      (ascii ''callback_data'', JStr senderUid)]]])])])\<rparr>"
  shows "(\<forall>r. fetch rt [] first = Some r \<and> ok r \<longrightarrow>
            handleWebhook rt request ownerUid botToken secretToken
              = ([first], Inr (Response lit_success 200)))
         \<and> (\<forall>r. fetch rt [] first = Some r \<and> \<not> ok r \<longrightarrow>
              fst (handleWebhook rt request ownerUid botToken secretToken) = [first, fallback]
              \<and> (fetch rt [first] fallback \<noteq> None \<longrightarrow>
                   snd (handleWebhook rt request ownerUid botToken secretToken)
                     = Inr (Response lit_success 200)))"
proof -
  have path: "get_path message [ascii ''chat'', ascii ''id''] = Inr from_chat_id"
    using sender(1,2) by simp
  note cm = copyMessage_call [OF owner path mid tok]
  have c1: "copyMessage rt [] ownerUid botToken message senderName senderUid True =
              ([first], case fetch rt [] first of None \<Rightarrow> Inl NetworkError | Some r \<Rightarrow> Inr r)"
    unfolding cm first_def marker_def by simp
  have c2: "copyMessage rt [first] ownerUid botToken message senderName senderUid False =
              ([first, fallback],
               case fetch rt [first] fallback of None \<Rightarrow> Inl NetworkError | Some r \<Rightarrow> Inr r)"
    unfolding cm fallback_def marker_def by simp
  have hw: "handleWebhook rt request ownerUid botToken secretToken =
              (case inbound_branch rt ownerUid botToken message of
                 (trace, Inl error) \<Rightarrow> (trace, Inr (Response lit_internal_error 500))
               | (trace, Inr r) \<Rightarrow> (trace, Inr r))"
    using auth upd msg rep own by (simp add: handleWebhook_try relay_def)
  have ib: "inbound_branch rt ownerUid botToken message =
              (case fetch rt [] first of
                 None \<Rightarrow> ([first], Inl NetworkError)
               | Some response \<Rightarrow>
                   if \<not> ok response
                   then ([first, fallback],
                         case fetch rt [first] fallback of
                           None \<Rightarrow> Inl NetworkError
                         | Some r \<Rightarrow> Inr (Response lit_success 200))
                   else ([first], Inr (Response lit_success 200)))"
    using body_text sender unfolding inbound_branch_def
    by (auto simp: c1 c2 split: option.splits)
  show ?thesis
    unfolding hw ib by (auto split: option.splits)
qed

text \<open>Ann writes to the bot. A remote that refuses every call gets the two calls, in
  order; a remote that accepts gets the first only. The answer is 200 both times.\<close>

theorem inbound_fallback_witness:
  "fst (handleWebhook (example_runtime remote_refuses)
      (delivery (Some (ascii ''Secret'')) (Some (stranger_message (ascii ''hi''))))
      (JStr (ascii ''100'')) (JStr (ascii ''TOKEN'')) (JStr (ascii ''Secret'')))
   = [\<lparr>endpoint = ascii ''https://api.telegram.org/bot'' @ ascii ''TOKEN''
                     @ ascii ''/copyMessage'',
        body = JSON_stringify
         (JObj [(ascii ''chat_id'', JNum (Fin 100)),
                (ascii ''from_chat_id'', JNum (Fin 42)),
                (ascii ''message_id'', JNum (Fin 9)),
                (ascii ''reply_markup'',
                 JObj [(ascii ''inline_keyboard'',
                   JArr [JArr [JObj
                     [(ascii ''text'',
                         JStr (lit_unlocked @ ascii ''Ann'' @ ascii '' ('' @ ascii ''42''
                               @ ascii '')'')),
                      (ascii ''callback_data'', JStr (ascii ''42'')),
                      (ascii ''url'', JStr (ascii ''tg://user?id='' @ ascii ''42''))]]])])])\<rparr>,
      \<lparr>endpoint = ascii ''https://api.telegram.org/bot'' @ ascii ''TOKEN''
                     @ ascii ''/copyMessage'',
        body = JSON_stringify
         (JObj [(ascii ''chat_id'', JNum (Fin 100)),
                (ascii ''from_chat_id'', JNum (Fin 42)),
                (ascii ''message_id'', JNum (Fin 9)),
                (ascii ''reply_markup'',
                 JObj [(ascii ''inline_keyboard'',
                   JArr [JArr [JObj
                     [(ascii ''text'',
                         JStr (lit_locked @ ascii ''Ann'' @ ascii '' ('' @ ascii ''42''
                               @ ascii '')'')),
                      (ascii ''callback_data'', JStr (ascii ''42''))]]])])])\<rparr>]
   \<and> snd (handleWebhook (example_runtime remote_refuses)
      (delivery (Some (ascii ''Secret'')) (Some (stranger_message (ascii ''hi''))))
      (JStr (ascii ''100'')) (JStr (ascii ''TOKEN'')) (JStr (ascii ''Secret'')))
   = Inr (Response lit_success 200)
   \<and> handleWebhook (example_runtime remote_accepts)
      (delivery (Some (ascii ''Secret'')) (Some (stranger_message (ascii ''hi''))))
      (JStr (ascii ''100'')) (JStr (ascii ''TOKEN'')) (JStr (ascii ''Secret''))
   = ([\<lparr>endpoint = ascii ''https://api.telegram.org/bot'' @ ascii ''TOKEN''
                     @ ascii ''/copyMessage'',
        body = JSON_stringify
         (JObj [(ascii ''chat_id'', JNum (Fin 100)),
                (ascii ''from_chat_id'', JNum (Fin 42)),
                (ascii ''message_id'', JNum (Fin 9)),
                (ascii ''reply_markup'',
                 JObj [(ascii ''inline_keyboard'',
                   JArr [JArr [JObj
                     [(ascii ''text'',
                         JStr (lit_unlocked @ ascii ''Ann'' @ ascii '' ('' @ ascii ''42''
                               @ ascii '')'')),
                      (ascii ''callback_data'', JStr (ascii ''42'')),
                      (ascii ''url'', JStr (ascii ''tg://user?id='' @ ascii ''42''))]]])])])\<rparr>],
      Inr (Response lit_success 200))"
proof -
  have t: "JStr (ascii ''hi'') \<noteq> JStr (ascii ''/start'')"
    by simp
  note f = inbound_fallback
         [OF delivery_parts(1) [of "ascii ''Secret''"] delivery_parts(3) stranger_parts(1-5) t
             stranger_parts(6,7) toString_42 stranger_parts(8) parseInt_100 stranger_parts(9)
             ToString_TOKEN]
  from f [where rt = "example_runtime remote_refuses"] remote_refuses_answers
  have refused: "fst (handleWebhook (example_runtime remote_refuses)
      (delivery (Some (ascii ''Secret'')) (Some (stranger_message (ascii ''hi''))))
      (JStr (ascii ''100'')) (JStr (ascii ''TOKEN'')) (JStr (ascii ''Secret'')))
   = [\<lparr>endpoint = ascii ''https://api.telegram.org/bot'' @ ascii ''TOKEN''
                     @ ascii ''/copyMessage'',
        body = JSON_stringify
         (JObj [(ascii ''chat_id'', JNum (Fin 100)),
                (ascii ''from_chat_id'', JNum (Fin 42)),
                (ascii ''message_id'', JNum (Fin 9)),
                (ascii ''reply_markup'',
                 JObj [(ascii ''inline_keyboard'',
                   JArr [JArr [JObj
                     [(ascii ''text'',
                         JStr (lit_unlocked @ ascii ''Ann'' @ ascii '' ('' @ ascii ''42''
                               @ ascii '')'')),
                      (ascii ''callback_data'', JStr (ascii ''42'')),
                      (ascii ''url'', JStr (ascii ''tg://user?id='' @ ascii ''42''))]]])])])\<rparr>,
      \<lparr>endpoint = ascii ''https://api.telegram.org/bot'' @ ascii ''TOKEN''
                     @ ascii ''/copyMessage'',
        body = JSON_stringify
         (JObj [(ascii ''chat_id'', JNum (Fin 100)),
                (ascii ''from_chat_id'', JNum (Fin 42)),
                (ascii ''message_id'', JNum (Fin 9)),
                (ascii ''reply_markup'',
                 JObj [(ascii ''inline_keyboard'',
                   JArr [JArr [JObj
                     [(ascii ''text'',
                         JStr (lit_locked @ ascii ''Ann'' @ ascii '' ('' @ ascii ''42''
                               @ ascii '')'')),
                      (ascii ''callback_data'', JStr (ascii ''42''))]]])])])\<rparr>]
   \<and> snd (handleWebhook (example_runtime remote_refuses)
      (delivery (Some (ascii ''Secret'')) (Some (stranger_message (ascii ''hi''))))
      (JStr (ascii ''100'')) (JStr (ascii ''TOKEN'')) (JStr (ascii ''Secret'')))
   = Inr (Response lit_success 200)"
    by blast
  from f [where rt = "example_runtime remote_accepts"] remote_accepts_answers
  have accepted: "handleWebhook (example_runtime remote_accepts)
      (delivery (Some (ascii ''Secret'')) (Some (stranger_message (ascii ''hi''))))
      (JStr (ascii ''100'')) (JStr (ascii ''TOKEN'')) (JStr (ascii ''Secret''))
   = ([\<lparr>endpoint = ascii ''https://api.telegram.org/bot'' @ ascii ''TOKEN''
                     @ ascii ''/copyMessage'',
        body = JSON_stringify
         (JObj [(ascii ''chat_id'', JNum (Fin 100)),
                (ascii ''from_chat_id'', JNum (Fin 42)),
                (ascii ''message_id'', JNum (Fin 9)),
                (ascii ''reply_markup'',
                 JObj [(ascii ''inline_keyboard'',
                   JArr [JArr [JObj
                     [(ascii ''text'',
                         JStr (lit_unlocked @ ascii ''Ann'' @ ascii '' ('' @ ascii ''42''
                               @ ascii '')'')),
                      (ascii ''callback_data'', JStr (ascii ''42'')),
                      (ascii ''url'', JStr (ascii ''tg://user?id='' @ ascii ''42''))]]])])])\<rparr>],
      Inr (Response lit_success 200))"
    by blast
  from refused accepted show ?thesis
    by blast
qed

subsection \<open>Errors\<close>

text \<open>
  Claim C3, as the code has it. The \<^verbatim>\<open>try\<close> of \<open>handleWebhook\<close> opens after the body
  has been parsed and \<^verbatim>\<open>update.message\<close> has been read.
  \<^item> The handler itself throws exactly when the header is accepted and that second
    step fails: the body is not JSON, or it is the JSON \<^verbatim>\<open>null\<close>. Such an error is
    not turned into a Response.
  \<^item> Every error thrown later, in the \<^verbatim>\<open>try\<close> block, is turned into one and the
    same Response, status 500 with a fixed text, whatever the error is and wherever
    it was thrown; the calls issued before it stay issued.
\<close>

theorem errors_of_the_try_block:
  "((\<exists>trace e. handleWebhook rt request ownerUid botToken secretToken = (trace, Inl e))
      \<longleftrightarrow> secretToken = header_value (secret_token_header request)
          \<and> (json request = None \<or> json request = Some JNull
              \<or> json request = Some JUndefined))
   \<and> (secretToken = header_value (secret_token_header request)
        \<and> json request = Some update
        \<and> get update (ascii ''message'') = Inr message \<and> truthy message
        \<and> get message (ascii ''reply_to_message'') = Inr reply
        \<and> relay rt ownerUid botToken message reply = (trace, Inl e)
      \<longrightarrow> handleWebhook rt request ownerUid botToken secretToken
            = (trace, Inr (Response lit_internal_error 500)))"
proof (intro conjI impI)
  show "(\<exists>trace e. handleWebhook rt request ownerUid botToken secretToken = (trace, Inl e))
      \<longleftrightarrow> secretToken = header_value (secret_token_header request)
          \<and> (json request = None \<or> json request = Some JNull
              \<or> json request = Some JUndefined)"
  proof (cases "secretToken = header_value (secret_token_header request)")
    case False
    then show ?thesis
      by (simp add: handleWebhook_def)
  next
    case auth: True
    show ?thesis
    proof (cases "json request")
      case None
      with auth show ?thesis
        by (simp add: handleWebhook_def)
    next
      case (Some update)
      show ?thesis
      proof (cases "get update (ascii ''message'')")
        case (Inl e)
        then have "update = JUndefined \<or> update = JNull"
          by (simp add: get_throws)
        with auth Some Inl show ?thesis
          by (auto simp: handleWebhook_def)
      next
        case (Inr message)
        then have u: "update \<noteq> JUndefined" "update \<noteq> JNull"
          by auto
        show ?thesis
        proof (cases "truthy message")
          case False
          with auth Some Inr u show ?thesis
            by (simp add: handleWebhook_def)
        next
          case True
          then obtain reply where r: "get message (ascii ''reply_to_message'') = Inr reply"
            using truthy_get by blast
          obtain trace res where "relay rt ownerUid botToken message reply = (trace, res)"
            using relay_outcome by blast
          with auth Some Inr True r u show ?thesis
            by (cases res) (simp_all add: handleWebhook_try)
        qed
      qed
    qed
  qed
next
  assume "secretToken = header_value (secret_token_header request)
        \<and> json request = Some update
        \<and> get update (ascii ''message'') = Inr message \<and> truthy message
        \<and> get message (ascii ''reply_to_message'') = Inr reply
        \<and> relay rt ownerUid botToken message reply = (trace, Inl e)"
  then show "handleWebhook rt request ownerUid botToken secretToken
            = (trace, Inr (Response lit_internal_error 500))"
    by (simp add: handleWebhook_try)
qed

text \<open>A delivery with the right header whose body is not JSON: the claim promises a
  500 Response; the handler throws.\<close>

theorem errors_of_the_try_block_counterexample:
  "handleWebhook (example_runtime remote_accepts)
      (delivery (Some (ascii ''Secret'')) None)
      (JStr (ascii ''100'')) (JStr (ascii ''TOKEN'')) (JStr (ascii ''Secret''))
     = ([], Inl SyntaxError)"
  by code_simp

text \<open>A reply whose message names no chat: reading \<^verbatim>\<open>message.chat.id\<close> throws in the
  \<^verbatim>\<open>try\<close> block, and the answer is the 500. A body that is not JSON: the handler
  throws.\<close>

theorem errors_of_the_try_block_witness:
  "relay (example_runtime remote_accepts) (JStr (ascii ''100'')) (JStr (ascii ''TOKEN''))
      chatless_message (JObj [(ascii ''message_id'', JNum (Fin 2))])
     = ([], Inl TypeError)
   \<and> handleWebhook (example_runtime remote_accepts)
      (delivery (Some (ascii ''Secret'')) (Some chatless_reply))
      (JStr (ascii ''100'')) (JStr (ascii ''TOKEN'')) (JStr (ascii ''Secret''))
     = ([], Inr (Response lit_internal_error 500))
   \<and> (\<exists>trace e. handleWebhook (example_runtime remote_accepts)
      (delivery (Some (ascii ''Secret'')) None)
      (JStr (ascii ''100'')) (JStr (ascii ''TOKEN'')) (JStr (ascii ''Secret''))
     = (trace, Inl e))"
proof -
  have parts:
    "get chatless_reply (ascii ''message'') = Inr chatless_message"
    "truthy chatless_message"
    "get chatless_message (ascii ''reply_to_message'')
       = Inr (JObj [(ascii ''message_id'', JNum (Fin 2))])"
    by (simp_all add: chatless_reply_def chatless_message_def)
  have thrown:
    "relay (example_runtime remote_accepts) (JStr (ascii ''100'')) (JStr (ascii ''TOKEN''))
       chatless_message (JObj [(ascii ''message_id'', JNum (Fin 2))])
      = ([], Inl TypeError)"
    by (simp add: relay_def is_owner_reply_def chatless_message_def)
  from errors_of_the_try_block
         [where rt = "example_runtime remote_accepts"
            and request = "delivery (Some (ascii ''Secret'')) (Some chatless_reply)"
            and ownerUid = "JStr (ascii ''100'')" and botToken = "JStr (ascii ''TOKEN'')"
            and secretToken = "JStr (ascii ''Secret'')"
            and update = chatless_reply and message = chatless_message
            and reply = "JObj [(ascii ''message_id'', JNum (Fin 2))]"
            and trace = "[]" and e = TypeError]
       delivery_parts(1) [of "ascii ''Secret''"] delivery_parts(3) parts thrown
  have caught: "handleWebhook (example_runtime remote_accepts)
      (delivery (Some (ascii ''Secret'')) (Some chatless_reply))
      (JStr (ascii ''100'')) (JStr (ascii ''TOKEN'')) (JStr (ascii ''Secret''))
     = ([], Inr (Response lit_internal_error 500))"
    by blast
  from errors_of_the_try_block
         [where rt = "example_runtime remote_accepts"
            and request = "delivery (Some (ascii ''Secret'')) None"
            and ownerUid = "JStr (ascii ''100'')" and botToken = "JStr (ascii ''TOKEN'')"
            and secretToken = "JStr (ascii ''Secret'')"]
       delivery_parts(1) [of "ascii ''Secret''"] delivery_parts(4)
  have not_caught: "\<exists>trace e. handleWebhook (example_runtime remote_accepts)
      (delivery (Some (ascii ''Secret'')) None)
      (JStr (ascii ''100'')) (JStr (ascii ''TOKEN'')) (JStr (ascii ''Secret''))
     = (trace, Inl e)"
    by blast
  from thrown caught not_caught show ?thesis
    by blast
qed

section \<open>The default secret\<close>

text \<open>
  Claim C5. The worker's entry point takes the secret from the environment and, when
  it is not set, the empty string. With the empty string as the secret, a request
  that carries the header with an empty value is never answered 401, whatever else
  it holds: no secret has to be known to write it. The last part is such a request
  run through the entry point with an empty environment: a stranger's update,
  delivered by anybody, is processed and relayed to the owner of the path. (An
  absent header is still refused: \<^verbatim>\<open>null\<close> is not the empty string.)
\<close>

theorem empty_default_secret_opens_the_gate:
  "(get env (ascii ''PREFIX'') = Inr PREFIX
      \<and> get env (ascii ''SECRET_TOKEN'') = Inr SECRET_TOKEN
      \<and> (SECRET_TOKEN = JUndefined \<or> SECRET_TOKEN = JNull) \<longrightarrow>
      onRequest rt request env =
        handleRequest rt request
          (JObj [(ascii ''prefix'', nullish PREFIX (JStr (ascii ''public''))),
                 (ascii ''secretToken'', JStr [])]))
   \<and> (secret_token_header request = Some [] \<longrightarrow>
        (\<forall>trace r. handleWebhook rt request ownerUid botToken (JStr []) = (trace, Inr r)
           \<longrightarrow> status r \<noteq> 401))
   \<and> onRequest (example_runtime remote_accepts)
        (delivery (Some []) (Some (stranger_message (ascii ''hi'')))) (JObj [])
      = ([\<lparr>endpoint = ascii ''https://api.telegram.org/botTOKEN/copyMessage'',
           body = JObj [(ascii ''chat_id'', JNum (Fin 100)),
                        (ascii ''from_chat_id'', JNum (Fin 42)),
                        (ascii ''message_id'', JNum (Fin 9)),
                        (ascii ''reply_markup'',
                         JObj [(ascii ''inline_keyboard'',
                           JArr [JArr [JObj
                             [(ascii ''text'', JStr (lit_unlocked @ ascii ''Ann (42)'')),
                              (ascii ''callback_data'', JStr (ascii ''42'')),
                              (ascii ''url'', JStr (ascii ''tg://user?id=42''))]]])])]\<rparr>],
         Inr (Response lit_success 200))"
proof (intro conjI impI allI)
  assume "get env (ascii ''PREFIX'') = Inr PREFIX
      \<and> get env (ascii ''SECRET_TOKEN'') = Inr SECRET_TOKEN
      \<and> (SECRET_TOKEN = JUndefined \<or> SECRET_TOKEN = JNull)"
  then show "onRequest rt request env =
        handleRequest rt request
          (JObj [(ascii ''prefix'', nullish PREFIX (JStr (ascii ''public''))),
                 (ascii ''secretToken'', JStr [])])"
    by (auto simp: onRequest_def nullish_def)
next
  fix trace r
  assume h: "secret_token_header request = Some []"
    and out: "handleWebhook rt request ownerUid botToken (JStr []) = (trace, Inr r)"
  from h have "JStr [] = header_value (secret_token_header request)"
    by (simp add: header_value_def)
  with handleWebhook_response [OF out]
  have "r = Response lit_success 200 \<or> r = Response lit_internal_error 500"
    by auto
  then show "status r \<noteq> 401"
    by (auto simp: Response_def)
next
  show "onRequest (example_runtime remote_accepts)
        (delivery (Some []) (Some (stranger_message (ascii ''hi'')))) (JObj [])
      = ([\<lparr>endpoint = ascii ''https://api.telegram.org/botTOKEN/copyMessage'',
           body = JObj [(ascii ''chat_id'', JNum (Fin 100)),
                        (ascii ''from_chat_id'', JNum (Fin 42)),
                        (ascii ''message_id'', JNum (Fin 9)),
                        (ascii ''reply_markup'',
                         JObj [(ascii ''inline_keyboard'',
                           JArr [JArr [JObj
                             [(ascii ''text'', JStr (lit_unlocked @ ascii ''Ann (42)'')),
                              (ascii ''callback_data'', JStr (ascii ''42'')),
                              (ascii ''url'', JStr (ascii ''tg://user?id=42''))]]])])]\<rparr>],
         Inr (Response lit_success 200))"
    by code_simp
qed

text \<open>The same request carrying \<^verbatim>\<open>/start\<close>: the entry point hands it to the router
  with the empty secret, and the handler accepts it and answers 200.\<close>

theorem empty_default_secret_opens_the_gate_witness:
  "onRequest (example_runtime remote_accepts)
      (delivery (Some []) (Some (stranger_message (ascii ''/start'')))) (JObj [])
     = handleRequest (example_runtime remote_accepts)
         (delivery (Some []) (Some (stranger_message (ascii ''/start''))))
         (JObj [(ascii ''prefix'', nullish JUndefined (JStr (ascii ''public''))),
                (ascii ''secretToken'', JStr [])])
   \<and> handleWebhook (example_runtime remote_accepts)
      (delivery (Some []) (Some (stranger_message (ascii ''/start''))))
      (JStr (ascii ''100'')) (JStr (ascii ''TOKEN'')) (JStr [])
     = ([], Inr (Response lit_success 200))
   \<and> status (Response lit_success 200) \<noteq> 401"
proof -
  have run: "handleWebhook (example_runtime remote_accepts)
      (delivery (Some []) (Some (stranger_message (ascii ''/start''))))
      (JStr (ascii ''100'')) (JStr (ascii ''TOKEN'')) (JStr [])
     = ([], Inr (Response lit_success 200))"
    by code_simp
  have env: "get (JObj []) (ascii ''PREFIX'') = Inr JUndefined"
    "get (JObj []) (ascii ''SECRET_TOKEN'') = Inr JUndefined"
    by simp_all
  from empty_default_secret_opens_the_gate
         [where env = "JObj []" and PREFIX = JUndefined and SECRET_TOKEN = JUndefined
            and rt = "example_runtime remote_accepts"
            and request = "delivery (Some []) (Some (stranger_message (ascii ''/start'')))"
            and ownerUid = "JStr (ascii ''100'')" and botToken = "JStr (ascii ''TOKEN'')"]
       run env delivery_parts(2)
  show ?thesis
    by blast
qed

section \<open>Install\<close>

text \<open>
  Claim C8. An install request whose secret passes the validation issues exactly one
  call, \<^verbatim>\<open>setWebhook\<close>, and the \<^verbatim>\<open>url\<close> it registers is the protocol of the
  request's URL, \<^verbatim>\<open>//\<close>, its host name, and
  \<^verbatim>\<open>/<prefix>/webhook/<ownerUid>/<botToken>\<close>, the three put in as they are: nothing
  of the request's query (or port) is in it and nothing is encoded.
\<close>

theorem install_registers_callback_url:
  assumes "validateSecretToken rt secretToken = Inr True"
  shows "fst (handleInstall rt request (JStr ownerUid) (JStr botToken) (JStr prefix) secretToken) =
           [\<lparr>endpoint = ascii ''https://api.telegram.org/bot'' @ botToken @ ascii ''/setWebhook'',
             body = JSON_stringify
                      (JObj [(ascii ''url'',
                                JStr (protocol (url request) @ ascii ''//'' @ hostname (url request)
                                      @ ascii ''/'' @ prefix @ ascii ''/webhook/'' @ ownerUid
                                      @ ascii ''/'' @ botToken)),
                             (ascii ''allowed_updates'', JArr [JStr (ascii ''message'')]),
                             (ascii ''secret_token'', secretToken)])\<rparr>]
         \<and> get (JSON_stringify
                      (JObj [(ascii ''url'',
                                JStr (protocol (url request) @ ascii ''//'' @ hostname (url request)
                                      @ ascii ''/'' @ prefix @ ascii ''/webhook/'' @ ownerUid
                                      @ ascii ''/'' @ botToken)),
                             (ascii ''allowed_updates'', JArr [JStr (ascii ''message'')]),
                             (ascii ''secret_token'', secretToken)])) (ascii ''url'')
             = Inr (JStr (protocol (url request) @ ascii ''//'' @ hostname (url request)
                          @ ascii ''/'' @ prefix @ ascii ''/webhook/'' @ ownerUid
                          @ ascii ''/'' @ botToken))"
proof -
  have ep: "ascii ''https://api.telegram.org/bot'' @ botToken @ ascii ''/'' @ ascii ''setWebhook''
          = ascii ''https://api.telegram.org/bot'' @ botToken @ ascii ''/setWebhook''"
    by (simp add: ascii_def)
  have "fst (handleInstall rt request (JStr ownerUid) (JStr botToken) (JStr prefix) secretToken) =
           [\<lparr>endpoint = ascii ''https://api.telegram.org/bot'' @ botToken @ ascii ''/setWebhook'',
             body = JSON_stringify
                      (JObj [(ascii ''url'',
                                JStr (protocol (url request) @ ascii ''//'' @ hostname (url request)
                                      @ ascii ''/'' @ prefix @ ascii ''/webhook/'' @ ownerUid
                                      @ ascii ''/'' @ botToken)),
                             (ascii ''allowed_updates'', JArr [JStr (ascii ''message'')]),
                             (ascii ''secret_token'', secretToken)])\<rparr>]"
    using assms unfolding handleInstall_def
    by (simp add: postToTelegramApi_call ep Let_def del: JSON_stringify.simps split: option.splits)
  then show ?thesis
    by simp
qed

text \<open>The install request of the examples has a port and a query; the URL it
  registers has neither.\<close>

theorem install_registers_callback_url_witness:
  "fst (handleInstall (example_runtime remote_accepts) install_request
          (JStr (ascii ''100'')) (JStr (ascii ''TOKEN'')) (JStr (ascii ''public''))
          (JStr (ascii ''Abcdefghijklmno1''))) =
     [\<lparr>endpoint = ascii ''https://api.telegram.org/botTOKEN/setWebhook'',
       body = JObj [(ascii ''url'', JStr (ascii ''https://bot.example/public/webhook/100/TOKEN'')),
                    (ascii ''allowed_updates'', JArr [JStr (ascii ''message'')]),
                    (ascii ''secret_token'', JStr (ascii ''Abcdefghijklmno1''))]\<rparr>]"
proof -
  have valid: "validateSecretToken (example_runtime remote_accepts)
                 (JStr (ascii ''Abcdefghijklmno1'')) = Inr True"
    by code_simp
  have parts: "protocol (url install_request) = ascii ''https:''"
    "hostname (url install_request) = ascii ''bot.example''"
    by (simp_all add: install_request_def)
  from install_registers_callback_url [OF valid, of install_request "ascii ''100''"
        "ascii ''TOKEN''" "ascii ''public''"]
  show ?thesis
    by (simp add: parts ascii_def)
qed

section \<open>The two files of the core\<close>

text \<open>The parts of the second file that have no literal of their own are the parts
  of the first.\<close>

lemma jiaoyan_miyao_eq: "jiaoyan_miyao rt token = validateSecretToken rt token"
  by (simp add: jiaoyan_miyao_def validateSecretToken_def)

lemma fasongdao_TelegramAPI_eq:
  "fasongdao_TelegramAPI rt trace token method data = postToTelegramApi rt trace token method data"
  by (simp add: fasongdao_TelegramAPI_def postToTelegramApi_def)

lemma is_owner_reply_zh_eq:
  "is_owner_reply_zh reply message ownerUid = is_owner_reply reply message ownerUid"
  by (simp add: is_owner_reply_zh_def is_owner_reply_def)

lemma has_inline_keyboard_zh_eq: "has_inline_keyboard_zh rt rm = has_inline_keyboard rt rm"
  by (simp add: has_inline_keyboard_zh_def has_inline_keyboard_def)

lemma marker_senderUid_zh_eq: "marker_senderUid_zh rm = marker_senderUid rm"
  by (simp add: marker_senderUid_zh_def marker_senderUid_def)

lemma senderName_of_zh_eq: "senderName_of_zh sender = senderName_of sender"
  by (simp add: senderName_of_zh_def senderName_of_def)

lemma marker_zh_eq: "marker_zh senderName senderUid withUrl = marker senderName senderUid withUrl"
  by (simp add: marker_zh_def marker_def)

lemma fuzhi_xiaoxi_eq:
  "fuzhi_xiaoxi rt trace ownerUid botToken message senderName senderUid withUrl
     = copyMessage rt trace ownerUid botToken message senderName senderUid withUrl"
  unfolding fuzhi_xiaoxi_def copyMessage_def marker_zh_eq fasongdao_TelegramAPI_eq
  by (rule refl)

lemma same_outcome_Response [simp]:
  "same_outcome (trace, Inr (Response a st)) (trace', Inr (Response b st'))
     \<longleftrightarrow> trace = trace' \<and> st = st'"
  by (simp add: same_outcome_def Response_def)

lemma same_outcome_Inl [simp]:
  "same_outcome (trace, Inl e) (trace', Inl e') \<longleftrightarrow> trace = trace' \<and> e = e'"
  by (simp add: same_outcome_def)

lemma same_outcome_json [simp]:
  "same_outcome (trace, Inr (jsonResponse a m st)) (trace', Inr (JSON_xiangying b m' st'))
     \<longleftrightarrow> trace = trace' \<and> st = st'"
  by (simp add: same_outcome_def jsonResponse_def JSON_xiangying_def)

lemma reply_branch_same:
  "same_outcome (reply_branch rt botToken message reply) (reply_branch_zh rt botToken message reply)"
  unfolding reply_branch_def reply_branch_zh_def has_inline_keyboard_zh_eq marker_senderUid_zh_eq
    fasongdao_TelegramAPI_eq
  by (simp del: get_path.simps split: sum.splits option.splits prod.splits)

lemma inbound_branch_same:
  "same_outcome (inbound_branch rt ownerUid botToken message)
     (inbound_branch_zh rt ownerUid botToken message)"
  unfolding inbound_branch_def inbound_branch_zh_def senderName_of_zh_eq fuzhi_xiaoxi_eq
  by (simp split: sum.splits option.splits prod.splits)

lemma relay_same:
  "same_outcome (relay rt ownerUid botToken message reply)
     (relay_zh rt ownerUid botToken message reply)"
  unfolding relay_def relay_zh_def is_owner_reply_zh_eq
  by (simp add: reply_branch_same inbound_branch_same split: sum.splits bool.splits)

lemma handleWebhook_same:
  "same_outcome (handleWebhook rt request ownerUid botToken secretToken)
     (chuli_Webhook rt request ownerUid botToken secretToken)"
proof -
  have "same_outcome
          (case relay rt ownerUid botToken message reply of
             (trace, Inl error) \<Rightarrow> (trace, Inr (Response lit_internal_error 500))
           | (trace, Inr r) \<Rightarrow> (trace, Inr r))
          (case relay_zh rt ownerUid botToken message reply of
             (trace, Inl error) \<Rightarrow> (trace, Inr (Response lit_internal_error 500))
           | (trace, Inr r) \<Rightarrow> (trace, Inr r))" for message reply
    using relay_same [of rt ownerUid botToken message reply]
    by (auto simp: same_outcome_def Response_def split: sum.splits prod.splits)
  then show ?thesis
    unfolding handleWebhook_def chuli_Webhook_def
    by (simp split: option.splits sum.splits)
qed

lemma handleInstall_same:
  "same_outcome (handleInstall rt request ownerUid botToken prefix secretToken)
     (anzhuang_Webhook rt request ownerUid botToken prefix secretToken)"
  unfolding handleInstall_def anzhuang_Webhook_def jiaoyan_miyao_eq fasongdao_TelegramAPI_eq Let_def
  by (auto simp: bindE_def simp del: JSON_stringify.simps
        split: sum.splits option.splits prod.splits bool.splits if_splits)

lemma handleUninstall_same:
  "same_outcome (handleUninstall rt botToken secretToken) (xiezai_Webhook rt botToken secretToken)"
  unfolding handleUninstall_def xiezai_Webhook_def jiaoyan_miyao_eq fasongdao_TelegramAPI_eq
  by (auto simp: bindE_def simp del: JSON_stringify.simps
        split: sum.splits option.splits prod.splits bool.splits if_splits)

text \<open>
  Claim C10, as the code has it. The two files read the configuration under different
  property names: the first \<^verbatim>\<open>prefix\<close> and \<^verbatim>\<open>secretToken\<close>, the second their
  Chinese names. Given the same request, and configurations that hold the same prefix
  and the same secret, each under the names its file reads (one object with both
  pairs of names, or two objects), \<open>handleRequest\<close> and \<open>chuli_qingqiu\<close> issue the
  same calls, with the same bodies, and both throw the same error or both answer with
  the same status.
\<close>

theorem variants_agree:
  assumes "get config_zh lit_prefix_zh = get config (ascii ''prefix'')"
    and "get config_zh lit_secret_zh = get config (ascii ''secretToken'')"
  shows "same_outcome (handleRequest rt request config) (chuli_qingqiu rt request config_zh)"
  unfolding handleRequest_def chuli_qingqiu_def assms Let_def
  by (simp add: handleInstall_same handleUninstall_same handleWebhook_same
        split: sum.splits option.splits prod.splits)

text \<open>The configuration of the worker given to both files, and a delivery of
  \<^verbatim>\<open>/start\<close> with the right header: the first file answers 200, the second finds
  no prefix in the configuration, matches no route and answers 404.\<close>

theorem variants_agree_counterexample:
  "handleRequest (example_runtime remote_accepts)
      (delivery (Some (ascii ''Abcdefghijklmno1'')) (Some (stranger_message (ascii ''/start''))))
      worker_config
     = ([], Inr (Response lit_success 200))
   \<and> chuli_qingqiu (example_runtime remote_accepts)
      (delivery (Some (ascii ''Abcdefghijklmno1'')) (Some (stranger_message (ascii ''/start''))))
      worker_config
     = ([], Inr (Response lit_not_found 404))"
  by code_simp

text \<open>Each file with the configuration in its own names.\<close>

theorem variants_agree_witness:
  "same_outcome
     (handleRequest (example_runtime remote_accepts)
        (delivery (Some (ascii ''Abcdefghijklmno1'')) (Some (stranger_message (ascii ''hi''))))
        worker_config)
     (chuli_qingqiu (example_runtime remote_accepts)
        (delivery (Some (ascii ''Abcdefghijklmno1'')) (Some (stranger_message (ascii ''hi''))))
        worker_config_zh)"
  by (rule variants_agree)
     (simp_all add: worker_config_def worker_config_zh_def lit_prefix_zh_def lit_secret_zh_def
        ascii_def)

end
